theory Spec2Isabelle
  imports Complex_Main
begin

section \<open>Data model\<close>

text \<open>
  The repository holds two variants of one WebGL scene: \<^verbatim>\<open>Hierarchical Objects - Copy/main.js\<close>
  (the ballerina with continuously swinging limbs and an orbiting camera) and
  \<^verbatim>\<open>unnamed/part_000\<close> (the ballerina with a three-phase cycle). The starfield, the matrix
  stack and the frame callback are the same code in both; the definitions below are shared,
  and the definitions that differ carry the suffix \<open>_ph\<close> for the phase variant.

  JavaScript numbers are modelled as \<^typ>\<open>real\<close>: rounding, infinities and \<^verbatim>\<open>NaN\<close> are
  outside the model. A variable that may hold \<^verbatim>\<open>undefined\<close> is an \<^typ>\<open>'a option\<close>, with
  \<^term>\<open>None\<close> for \<^verbatim>\<open>undefined\<close>.
\<close>

type_synonym vec3 = "real \<times> real \<times> real"
type_synonym vec4 = "real \<times> real \<times> real \<times> real"

text \<open>
  The matrix library \<^verbatim>\<open>MV.js\<close> (\<^verbatim>\<open>mat4\<close>, \<^verbatim>\<open>mult\<close>, \<^verbatim>\<open>translate\<close>, \<^verbatim>\<open>rotate\<close>, \<^verbatim>\<open>scale\<close>,
  \<^verbatim>\<open>lookAt\<close>, \<^verbatim>\<open>ortho\<close>, \<^verbatim>\<open>inverseTranspose\<close>) is loaded by the page and is not part of the
  repository. It is a parameter of the model: a matrix is a value of an arbitrary type
  \<open>'m\<close>, and each library function is a function on such values that returns a new matrix
  and changes none of its arguments.
\<close>

record 'm mvlib =
  mv_mat4 :: 'm
  mv_mult :: "'m \<Rightarrow> 'm \<Rightarrow> 'm"
  mv_translate :: "vec3 \<Rightarrow> 'm"
  mv_rotate :: "real \<Rightarrow> vec3 \<Rightarrow> 'm"
  mv_scale :: "real \<Rightarrow> real \<Rightarrow> real \<Rightarrow> 'm"
  mv_lookAt :: "vec3 \<Rightarrow> vec3 \<Rightarrow> vec3 \<Rightarrow> 'm"
  mv_ortho :: "real \<Rightarrow> real \<Rightarrow> real \<Rightarrow> real \<Rightarrow> real \<Rightarrow> real \<Rightarrow> 'm"
  mv_inverseTranspose :: "'m \<Rightarrow> 'm"

text \<open>
  One concrete instance of the library, used to run the model on concrete inputs: a matrix
  is the term of library calls that built it.
\<close>

datatype mterm =
    Mat4
  | Mult mterm mterm
  | TranslateM vec3
  | RotateM real vec3
  | ScaleM real real real
  | LookAt vec3 vec3 vec3
  | Ortho real real real real real real
  | InverseTranspose mterm

definition mv_terms :: "mterm mvlib" where
  "mv_terms = \<lparr> mv_mat4 = Mat4, mv_mult = Mult, mv_translate = TranslateM,
      mv_rotate = RotateM, mv_scale = ScaleM, mv_lookAt = LookAt, mv_ortho = Ortho,
      mv_inverseTranspose = InverseTranspose \<rparr>"

text \<open>
  What the program does to the outside, and the calls of the matrix-stack helpers, are
  recorded in order of execution in the field \<open>calls\<close> of the state.
\<close>

datatype prim = Cube | Sphere | Cylinder | Cone

datatype 'm call =
    Clear
  | Push
  | Pop
  | Translate real real real
  | Rotate real real real real
  | Scale real real real
  | Color vec4
  | UniformProjection 'm
  | UniformModelView 'm 'm
  | Draw prim
  | RequestAnimFrame

datatype error = TypeError

record star =
  star_x :: real
  star_y :: real
  star_velocity :: real
  star_scale :: real

text \<open>
  The global variables that the modelled functions read or write. \<open>MS\<close> is the JavaScript
  array with its last element (the top of the stack) first. \<open>nrand\<close> counts the calls of
  \<^verbatim>\<open>Math.random()\<close> made so far: the random source is a function \<open>rnd\<close> from the
  number of the call to the value returned, a parameter of every function that draws from it.
\<close>

record 'm globals =
  MS :: "'m option list"
  modelMatrix :: "'m option"
  viewMatrix :: "'m option"
  projectionMatrix :: "'m option"
  eye :: "vec3 option"
  dt :: real
  prevTime :: real
  resetTimerFlag :: bool
  animFlag :: bool
  stars :: "star list"
  nrand :: nat
  calls :: "'m call list"

definition near_c :: real where "near_c = 1"
definition far_c :: real where "far_c = 100"
definition left_c :: real where "left_c = -6.0"
definition right_c :: real where "right_c = 6.0"
definition ytop :: real where "ytop = 6.0"
definition bottom_c :: real where "bottom_c = -6.0"
definition up_c :: vec3 where "up_c = (0.0, 1.0, 0.0)"
definition numStars :: nat where "numStars = 50"

section \<open>Sequencing\<close>

text \<open>
  A statement is a function from the state to an error or the next state; a block runs its
  statements in order and stops at the first exception.
\<close>

fun seq :: "('s \<Rightarrow> error + 's) list \<Rightarrow> 's \<Rightarrow> error + 's" where
  "seq [] s = Inr s"
| "seq (f # fs) s = (case f s of Inl e \<Rightarrow> Inl e | Inr s' \<Rightarrow> seq fs s')"

definition emit :: "'m call \<Rightarrow> ('m, 'z) globals_scheme \<Rightarrow> ('m, 'z) globals_scheme" where
  "emit c s = s\<lparr>calls := calls s @ [c]\<rparr>"

section \<open>Matrix stack and drawing helpers\<close>

text \<open>
  \<^verbatim>\<open>setColor(c)\<close> computes the three light products from \<open>c\<close> and constants and uploads
  them; the upload is recorded as \<^term>\<open>Color c\<close>.
\<close>

definition setColor :: "vec4 \<Rightarrow> ('m, 'z) globals_scheme \<Rightarrow> error + ('m, 'z) globals_scheme" where
  "setColor c s = Inr (emit (Color c) s)"

text \<open>
  \<^verbatim>\<open>setMV()\<close>: \<^verbatim>\<open>mult\<close> reads a property of its arguments, so it raises a
  \<^verbatim>\<open>TypeError\<close> on \<^verbatim>\<open>undefined\<close>. The globals \<^verbatim>\<open>modelViewMatrix\<close> and
  \<^verbatim>\<open>normalMatrix\<close> are written here and read nowhere else; they appear as the recorded
  upload.
\<close>

definition setMV :: "'m mvlib \<Rightarrow> ('m, 'z) globals_scheme \<Rightarrow> error + ('m, 'z) globals_scheme" where
  "setMV lib s =
     (case (viewMatrix s, modelMatrix s) of
        (Some v, Some m) \<Rightarrow>
          (let modelViewMatrix = mv_mult lib v m;
               normalMatrix = mv_inverseTranspose lib modelViewMatrix
           in Inr (emit (UniformModelView modelViewMatrix normalMatrix) s))
      | _ \<Rightarrow> Inl TypeError)"

definition setAllMatrices :: "'m mvlib \<Rightarrow> ('m, 'z) globals_scheme \<Rightarrow> error + ('m, 'z) globals_scheme" where
  "setAllMatrices lib s =
     (case projectionMatrix s of
        None \<Rightarrow> Inl TypeError
      | Some p \<Rightarrow> setMV lib (emit (UniformProjection p) s))"

definition drawCube :: "'m mvlib \<Rightarrow> ('m, 'z) globals_scheme \<Rightarrow> error + ('m, 'z) globals_scheme" where
  "drawCube lib s = (case setMV lib s of Inl e \<Rightarrow> Inl e | Inr s' \<Rightarrow> Inr (emit (Draw Cube) s'))"

definition drawSphere :: "'m mvlib \<Rightarrow> ('m, 'z) globals_scheme \<Rightarrow> error + ('m, 'z) globals_scheme" where
  "drawSphere lib s = (case setMV lib s of Inl e \<Rightarrow> Inl e | Inr s' \<Rightarrow> Inr (emit (Draw Sphere) s'))"

definition drawCylinder :: "'m mvlib \<Rightarrow> ('m, 'z) globals_scheme \<Rightarrow> error + ('m, 'z) globals_scheme" where
  "drawCylinder lib s = (case setMV lib s of Inl e \<Rightarrow> Inl e | Inr s' \<Rightarrow> Inr (emit (Draw Cylinder) s'))"

definition drawCone :: "'m mvlib \<Rightarrow> ('m, 'z) globals_scheme \<Rightarrow> error + ('m, 'z) globals_scheme" where
  "drawCone lib s = (case setMV lib s of Inl e \<Rightarrow> Inl e | Inr s' \<Rightarrow> Inr (emit (Draw Cone) s'))"

definition gTranslate ::
  "'m mvlib \<Rightarrow> real \<Rightarrow> real \<Rightarrow> real \<Rightarrow> ('m, 'z) globals_scheme \<Rightarrow> error + ('m, 'z) globals_scheme" where
  "gTranslate lib x y z s =
     (case modelMatrix s of
        None \<Rightarrow> Inl TypeError
      | Some m \<Rightarrow>
          Inr (emit (Translate x y z) (s\<lparr>modelMatrix := Some (mv_mult lib m (mv_translate lib (x, y, z)))\<rparr>)))"

definition gRotate ::
  "'m mvlib \<Rightarrow> real \<Rightarrow> real \<Rightarrow> real \<Rightarrow> real \<Rightarrow> ('m, 'z) globals_scheme \<Rightarrow> error + ('m, 'z) globals_scheme" where
  "gRotate lib theta x y z s =
     (case modelMatrix s of
        None \<Rightarrow> Inl TypeError
      | Some m \<Rightarrow>
          Inr (emit (Rotate theta x y z) (s\<lparr>modelMatrix := Some (mv_mult lib m (mv_rotate lib theta (x, y, z)))\<rparr>)))"

definition gScale ::
  "'m mvlib \<Rightarrow> real \<Rightarrow> real \<Rightarrow> real \<Rightarrow> ('m, 'z) globals_scheme \<Rightarrow> error + ('m, 'z) globals_scheme" where
  "gScale lib sx sy sz s =
     (case modelMatrix s of
        None \<Rightarrow> Inl TypeError
      | Some m \<Rightarrow>
          Inr (emit (Scale sx sy sz) (s\<lparr>modelMatrix := Some (mv_mult lib m (mv_scale lib sx sy sz))\<rparr>)))"

text \<open>
  \<^verbatim>\<open>MS.push(modelMatrix)\<close> stores whatever the variable holds, \<^verbatim>\<open>undefined\<close> included.
  \<^verbatim>\<open>MS.pop()\<close> on an empty array returns \<^verbatim>\<open>undefined\<close> and raises nothing.
\<close>

definition gPush :: "('m, 'z) globals_scheme \<Rightarrow> error + ('m, 'z) globals_scheme" where
  "gPush s = Inr (emit Push (s\<lparr>MS := modelMatrix s # MS s\<rparr>))"

definition gPop :: "('m, 'z) globals_scheme \<Rightarrow> error + ('m, 'z) globals_scheme" where
  "gPop s =
     (case MS s of
        [] \<Rightarrow> Inr (emit Pop (s\<lparr>modelMatrix := None\<rparr>))
      | m # ms \<Rightarrow> Inr (emit Pop (s\<lparr>modelMatrix := m, MS := ms\<rparr>)))"

section \<open>Starfield\<close>

definition Star_reset :: "(nat \<Rightarrow> real) \<Rightarrow> star \<times> nat \<Rightarrow> star \<times> nat" where
  "Star_reset rnd = (\<lambda>(st, k).
     (st\<lparr>star_x := -6 + rnd k * 12,
         star_y := -6 + rnd (k + 1) * 12,
         star_velocity := 0.5 + rnd (k + 2) * 0.2,
         star_scale := 0.02 + rnd (k + 3) * (0.05 - 0.02)\<rparr>, k + 4))"

text \<open>The constructor only calls \<^verbatim>\<open>reset()\<close> on the new object, whose fields are all assigned there.\<close>

definition Star_new :: "(nat \<Rightarrow> real) \<Rightarrow> nat \<Rightarrow> star \<times> nat" where
  "Star_new rnd k = Star_reset rnd (\<lparr>star_x = 0, star_y = 0, star_velocity = 0, star_scale = 0\<rparr>, k)"

definition Star_update :: "(nat \<Rightarrow> real) \<Rightarrow> real \<Rightarrow> star \<times> nat \<Rightarrow> star \<times> nat" where
  "Star_update rnd d = (\<lambda>(st, k).
     (let st1 = st\<lparr>star_x := star_x st + star_velocity st * d\<rparr>;
          st2 = st1\<lparr>star_y := star_y st1 + star_velocity st1 * d\<rparr>
      in if star_x st2 > 10 \<or> star_y st2 > 10
         then if rnd k < 0.5
              then (st2\<lparr>star_x := -6, star_y := -6 + rnd (k + 1) * 12\<rparr>, k + 2)
              else (st2\<lparr>star_x := -6 + rnd (k + 1) * 12, star_y := -6\<rparr>, k + 2)
         else (st2, k)))"

definition Star_draw :: "'m mvlib \<Rightarrow> star \<Rightarrow> ('m, 'z) globals_scheme \<Rightarrow> error + ('m, 'z) globals_scheme" where
  "Star_draw lib st = seq
     [gPush,
      gTranslate lib (star_x st) (star_y st) (-10),
      setColor (0.9, 0.85, 0.75, 1.0),
      gScale lib (star_scale st) (star_scale st) (star_scale st),
      drawSphere lib,
      gPop]"

definition Star_draw_ph :: "'m mvlib \<Rightarrow> star \<Rightarrow> ('m, 'z) globals_scheme \<Rightarrow> error + ('m, 'z) globals_scheme" where
  "Star_draw_ph lib st = seq
     [gPush,
      gTranslate lib (star_x st) (star_y st) (-10),
      setColor (1.0, 1.0, 1.0, 1.0),
      gScale lib (star_scale st) (star_scale st) (star_scale st),
      drawSphere lib,
      gPop]"

text \<open>The loop that fills \<^verbatim>\<open>stars\<close> at load time.\<close>

fun new_stars :: "(nat \<Rightarrow> real) \<Rightarrow> nat \<Rightarrow> nat \<Rightarrow> star list \<times> nat" where
  "new_stars rnd 0 k = ([], k)"
| "new_stars rnd (Suc n) k =
     (let (st, k1) = Star_new rnd k; (sts, k2) = new_stars rnd n k1 in (st # sts, k2))"

text \<open>\<^verbatim>\<open>stars.forEach(star => star.update(dt))\<close>, in the order of the array.\<close>

fun update_each :: "(nat \<Rightarrow> real) \<Rightarrow> real \<Rightarrow> star list \<Rightarrow> nat \<Rightarrow> star list \<times> nat" where
  "update_each rnd d [] k = ([], k)"
| "update_each rnd d (st # sts) k =
     (let (st', k1) = Star_update rnd d (st, k); (sts', k2) = update_each rnd d sts k1
      in (st' # sts', k2))"

definition updateStars :: "(nat \<Rightarrow> real) \<Rightarrow> real \<Rightarrow> ('m, 'z) globals_scheme \<Rightarrow> ('m, 'z) globals_scheme" where
  "updateStars rnd d s =
     (let (sts, k) = update_each rnd d (stars s) (nrand s) in s\<lparr>stars := sts, nrand := k\<rparr>)"

definition drawStars :: "'m mvlib \<Rightarrow> ('m, 'z) globals_scheme \<Rightarrow> error + ('m, 'z) globals_scheme" where
  "drawStars lib s =
     (case eye s of
        None \<Rightarrow> (case gPush s of Inl e \<Rightarrow> Inl e | Inr s' \<Rightarrow> Inl TypeError)
      | Some (ex, ey, ez) \<Rightarrow>
          seq ([gPush, gTranslate lib ex ey ez] @ map (Star_draw lib) (stars s) @ [gPop]) s)"

definition drawStars_ph :: "'m mvlib \<Rightarrow> ('m, 'z) globals_scheme \<Rightarrow> error + ('m, 'z) globals_scheme" where
  "drawStars_ph lib s = seq (map (Star_draw_ph lib) (stars s)) s"

section \<open>Ballerina of \<^verbatim>\<open>main.js\<close>\<close>

record ballerina =
  b_position :: vec3
  b_basePosition :: vec3
  b_scale :: real
  b_time :: real
  b_rotationAngle :: real
  b_rotationSpeed :: real

definition Ballerina_new :: "vec3 \<Rightarrow> real \<Rightarrow> ballerina" where
  "Ballerina_new position scale =
     \<lparr>b_position = position, b_basePosition = position, b_scale = scale, b_time = 0.0,
      b_rotationAngle = -35, b_rotationSpeed = 0\<rparr>"

definition drawHead :: "'m mvlib \<Rightarrow> ballerina \<Rightarrow> ('m, 'z) globals_scheme \<Rightarrow> error + ('m, 'z) globals_scheme" where
  "drawHead lib b = seq
     [gPush,
      setColor (1.0, 0.8, 0.6, 1.0),
      gTranslate lib 0 (1.3 * b_scale b) 0.03,
      gScale lib (0.35 * b_scale b) (0.36 * b_scale b) (0.35 * b_scale b),
      drawSphere lib,
      gPop,

      gPush,
      setColor (1.0, 0.8, 0.6, 1.0),
      gTranslate lib 0 (0.8 * b_scale b) 0,
      gScale lib (0.5 * b_scale b) (0.5 * b_scale b) (0.3 * b_scale b),
      gRotate lib (-90) 1 0 0,
      drawCone lib,
      gPop,

      gPush,
      setColor (0.4, 0.2, 0.1, 1.0),
      gTranslate lib 0 (1.3 * b_scale b) 0,
      gScale lib (0.35 * b_scale b) (0.35 * b_scale b) (0.35 * b_scale b),
      drawSphere lib,
      gPop,

      gPush,
      setColor (0.4, 0.2, 0.1, 1.0),
      gTranslate lib 0.0 (1.6 * b_scale b) (-0.06 * b_scale b),
      gScale lib (0.3 * b_scale b) (0.3 * b_scale b) (0.3 * b_scale b),
      drawSphere lib,
      gPop,

      gPush,
      setColor (0.7, 0.5, 0.9, 1.0),
      gTranslate lib 0.0 (1.5 * b_scale b) (0.2 * b_scale b),
      gScale lib (0.25 * b_scale b) (0.10 * b_scale b) (0.04 * b_scale b),
      drawCube lib,
      gPop]"

definition drawBody :: "'m mvlib \<Rightarrow> ballerina \<Rightarrow> ('m, 'z) globals_scheme \<Rightarrow> error + ('m, 'z) globals_scheme" where
  "drawBody lib b = seq
     [gPush,
      setColor (0.7, 0.5, 0.9, 1.0),
      gTranslate lib 0 (0.1 * b_scale b) 0,
      gRotate lib 90 1 0 0,
      gScale lib (0.5 * b_scale b) (0.4 * b_scale b) (1 * b_scale b),
      drawCone lib,
      gPop,

      gPush,
      setColor (0.7, 0.5, 0.9, 1.0),
      gTranslate lib 0.05 (-0.45 * b_scale b) 0,
      gRotate lib (-90) 1 0 0,
      gScale lib (1.75 * b_scale b) (1.75 * b_scale b) (1 * b_scale b),
      drawCone lib,
      gPop]"

definition drawArms :: "'m mvlib \<Rightarrow> ballerina \<Rightarrow> ('m, 'z) globals_scheme \<Rightarrow> error + ('m, 'z) globals_scheme" where
  "drawArms lib b =
     (let armLength = 0.6 * b_scale b;
          armOffset = 0.8 * b_scale b
      in seq
       [gPush,
        setColor (1.0, 0.8, 0.6, 1.0),
        gTranslate lib (- armOffset) (0.2 * b_scale b) 0,
        gRotate lib (-45) 0 0 1,
        gRotate lib (12 * sin (b_time b * 2)) 1 0 0,
        gScale lib (0.06 * b_scale b) armLength (0.13 * b_scale b),
        drawCube lib,
        gPop,

        gPush,
        setColor (1.0, 0.8, 0.6, 1.0),
        gTranslate lib armOffset (0.2 * b_scale b) 0,
        gRotate lib 45 0 0 1,
        gRotate lib (-12 * sin (b_time b * 2)) 1 0 0,
        gScale lib (0.06 * b_scale b) armLength (0.13 * b_scale b),
        drawCube lib,
        gPop])"

definition drawLegs :: "'m mvlib \<Rightarrow> ballerina \<Rightarrow> ('m, 'z) globals_scheme \<Rightarrow> error + ('m, 'z) globals_scheme" where
  "drawLegs lib b =
     (let legLength = 0.5 * b_scale b;
          hipBend = -10 * sin (b_time b * 2);
          hipBendL = -10 * sin (b_time b * 2);
          kneeBendL = -3 * max 10 (25 * sin (b_time b * 2));
          kneeBendR = -3 * max 10 (25 * cos (b_time b * 2))
      in seq
       [setColor (1.0, 0.8, 0.6, 1.0),
        gPush,
        gTranslate lib (-0.25 * b_scale b) (-1.4 * b_scale b) (-0.1),
        gRotate lib 0 (-10) 0 1,
        gRotate lib (hipBendL - 1) (-1) 0 0,
        gScale lib (0.15 * b_scale b) legLength (0.12 * b_scale b),
        drawCube lib,

        gPush,
        gTranslate lib 0 (- legLength - 1) (-0.1),
        gRotate lib 0 (-15) 0 1,
        gRotate lib (- kneeBendL) 1 0 0,
        gScale lib 1 1.3 0.75,
        drawCube lib,

        gPush,
        setColor (1.0, 0.71, 0.76, 1.0),
        gTranslate lib 0 (- legLength - 0.5) (0.06 * b_scale b + 1),
        gScale lib 1 0.2 0.5,
        drawCube lib,
        gPop,

        gPop,
        gPop,

        setColor (1.0, 0.8, 0.6, 1.0),
        gPush,
        gTranslate lib (0.2 * b_scale b) (-1.4 * b_scale b) (-0.2),
        gRotate lib (-1) (-10) 0 0,
        gRotate lib (- hipBend) 1 0 0,
        gScale lib (0.15 * b_scale b) legLength (0.12 * b_scale b),
        drawCube lib,

        gPush,
        gTranslate lib 0 (- legLength - 1) (-0.1),
        gRotate lib 0 15 0 1,
        gRotate lib (- kneeBendR) 1 0 0,
        gScale lib 1 1.3 0.75,
        drawCube lib,

        gPush,
        setColor (1.0, 0.71, 0.76, 1.0),
        gTranslate lib 0 (- legLength - 0.5) (0.06 * b_scale b + 1),
        gScale lib 1 0.2 0.5,
        drawCube lib,
        gPop,

        gPop,
        gPop])"

definition Ballerina_update :: "real \<Rightarrow> ballerina \<Rightarrow> ballerina" where
  "Ballerina_update d b =
     (let b1 = b\<lparr>b_time := b_time b + d\<rparr>
      in b1\<lparr>b_rotationAngle := b_rotationAngle b1 + 360 * d * 0\<rparr>)"

definition Ballerina_render :: "'m mvlib \<Rightarrow> ballerina \<Rightarrow> ('m, 'z) globals_scheme \<Rightarrow> error + ('m, 'z) globals_scheme" where
  "Ballerina_render lib b =
     (case b_position b of (px, py, pz) \<Rightarrow> seq
       [gPush,
        gTranslate lib px py pz,
        gRotate lib (b_rotationAngle b) 0 1 0,
        drawHead lib b,
        drawBody lib b,
        drawArms lib b,
        drawLegs lib b,
        gPop])"

section \<open>Ballerina of the phase variant\<close>

record ballerina_ph =
  p_position :: vec3
  p_scale :: real
  p_time :: real
  p_phase :: int
  p_legRotation :: real

definition Ballerina_new_ph :: "vec3 \<Rightarrow> real \<Rightarrow> ballerina_ph" where
  "Ballerina_new_ph position scale =
     \<lparr>p_position = position, p_scale = scale, p_time = 0.0, p_phase = 0, p_legRotation = 0\<rparr>"

definition Ballerina_update_ph :: "real \<Rightarrow> ballerina_ph \<Rightarrow> ballerina_ph" where
  "Ballerina_update_ph d b =
     (let b1 = b\<lparr>p_time := p_time b + d\<rparr>
      in if p_time b1 > 2
         then (b1\<lparr>p_phase := (p_phase b1 + 1) mod 3\<rparr>)\<lparr>p_time := 0\<rparr>
         else b1)"

definition drawLegs_ph :: "'m mvlib \<Rightarrow> ballerina_ph \<Rightarrow> ('m, 'z) globals_scheme \<Rightarrow> error + ('m, 'z) globals_scheme" where
  "drawLegs_ph lib b = seq
     [gPush,
      setColor (1.0, 0.8, 0.8, 1.0),
      gTranslate lib 0 (-1.2) 0,
      gRotate lib (p_legRotation b) 1 0 0,
      gScale lib 0.2 1.0 0.2,
      drawCube lib,
      gPop]"

definition Ballerina_render_ph :: "'m mvlib \<Rightarrow> ballerina_ph \<Rightarrow> ('m, 'z) globals_scheme \<Rightarrow> error + ('m, 'z) globals_scheme" where
  "Ballerina_render_ph lib b =
     (case p_position b of (px, py, pz) \<Rightarrow> seq
       [gPush,
        gTranslate lib px py pz,
        gScale lib (p_scale b) (p_scale b) (p_scale b),
        drawLegs_ph lib b,
        gPop])"

section \<open>Frame callback\<close>

text \<open>The whole state of each variant: the shared globals and what the variant adds.\<close>

record 'm scene = "'m globals" +
  cameraAngle :: real
  ballerina :: ballerina

record 'm scene_ph = "'m globals" +
  ballerina_ph :: ballerina_ph

definition at_c :: vec3 where "at_c = (0.0, 1.0, 0.0)"
definition at_ph :: vec3 where "at_ph = (0.0, 0.0, 0.0)"

text \<open>A statement that cannot raise.\<close>

definition stmt :: "('s \<Rightarrow> 's) \<Rightarrow> 's \<Rightarrow> error + 's" where
  "stmt f s = Inr (f s)"

text \<open>
  \<^verbatim>\<open>viewMatrix = lookAt(eye, at, up)\<close>; \<^verbatim>\<open>lookAt\<close> raises when \<^verbatim>\<open>eye\<close> is not a vector.
\<close>

definition set_viewMatrix :: "'m mvlib \<Rightarrow> vec3 \<Rightarrow> ('m, 'z) globals_scheme \<Rightarrow> error + ('m, 'z) globals_scheme" where
  "set_viewMatrix lib a s =
     (case eye s of
        None \<Rightarrow> Inl TypeError
      | Some e \<Rightarrow> Inr (s\<lparr>viewMatrix := Some (mv_lookAt lib e a up_c)\<rparr>))"

definition set_projectionMatrix :: "'m mvlib \<Rightarrow> ('m, 'z) globals_scheme \<Rightarrow> ('m, 'z) globals_scheme" where
  "set_projectionMatrix lib s =
     s\<lparr>projectionMatrix := Some (mv_ortho lib left_c right_c bottom_c ytop near_c far_c)\<rparr>"

definition updateCamera :: "real \<Rightarrow> ('m, 'z) scene_scheme \<Rightarrow> ('m, 'z) scene_scheme" where
  "updateCamera d s =
     (let s1 = s\<lparr>cameraAngle := cameraAngle s + d * 0.5\<rparr>;
          radius = 20.0
      in s1\<lparr>eye := Some (sin (cameraAngle s1) * radius, 3, cos (cameraAngle s1) * radius)\<rparr>)"

definition render :: "'m mvlib \<Rightarrow> (nat \<Rightarrow> real) \<Rightarrow> real \<Rightarrow> ('m, 'z) scene_scheme \<Rightarrow> error + ('m, 'z) scene_scheme" where
  "render lib rnd timestamp = seq
     [stmt (emit Clear),
      stmt (\<lambda>s. s\<lparr>eye := Some (0, 0, 10)\<rparr>),
      stmt (\<lambda>s. s\<lparr>MS := []\<rparr>),
      stmt (\<lambda>s. s\<lparr>modelMatrix := Some (mv_mat4 lib)\<rparr>),
      set_viewMatrix lib at_c,
      stmt (set_projectionMatrix lib),
      setAllMatrices lib,
      stmt (\<lambda>s. if animFlag s
                then (s\<lparr>dt := (timestamp - prevTime s) / 1000.0\<rparr>)\<lparr>prevTime := timestamp\<rparr>
                else s),
      stmt (\<lambda>s. updateStars rnd (dt s) s),
      drawStars lib,
      stmt (\<lambda>s. updateCamera (dt s) s),
      set_viewMatrix lib at_c,
      stmt (set_projectionMatrix lib),
      setAllMatrices lib,
      stmt (\<lambda>s. s\<lparr>ballerina := Ballerina_update (dt s) (ballerina s)\<rparr>),
      (\<lambda>s. Ballerina_render lib (ballerina s) s),
      stmt (\<lambda>s. if animFlag s then emit RequestAnimFrame s else s)]"

definition render_ph :: "'m mvlib \<Rightarrow> (nat \<Rightarrow> real) \<Rightarrow> real \<Rightarrow> ('m, 'z) scene_ph_scheme \<Rightarrow> error + ('m, 'z) scene_ph_scheme" where
  "render_ph lib rnd timestamp = seq
     [stmt (emit Clear),
      stmt (\<lambda>s. s\<lparr>eye := Some (0, 0, 10)\<rparr>),
      stmt (\<lambda>s. s\<lparr>MS := []\<rparr>),
      stmt (\<lambda>s. s\<lparr>modelMatrix := Some (mv_mat4 lib)\<rparr>),
      set_viewMatrix lib at_ph,
      stmt (set_projectionMatrix lib),
      setAllMatrices lib,
      stmt (\<lambda>s. if animFlag s
                then (s\<lparr>dt := (timestamp - prevTime s) / 1000.0\<rparr>)\<lparr>prevTime := timestamp\<rparr>
                else s),
      stmt (\<lambda>s. updateStars rnd (dt s) s),
      drawStars_ph lib,
      stmt (\<lambda>s. s\<lparr>ballerina_ph := Ballerina_update_ph (dt s) (ballerina_ph s)\<rparr>),
      (\<lambda>s. Ballerina_render_ph lib (ballerina_ph s) s),
      stmt (\<lambda>s. if animFlag s then emit RequestAnimFrame s else s)]"

text \<open>The click handler of the animation button.\<close>

definition animToggle :: "('m, 'z) globals_scheme \<Rightarrow> ('m, 'z) globals_scheme" where
  "animToggle s =
     (if animFlag s then s\<lparr>animFlag := False\<rparr>
      else emit RequestAnimFrame ((s\<lparr>animFlag := True\<rparr>)\<lparr>resetTimerFlag := True\<rparr>))"

text \<open>
  The state when the script has been loaded (the global initialisers, the loop that creates the
  stars, the ballerina instance), before \<^verbatim>\<open>window.onload\<close> runs.
\<close>

definition loaded :: "(nat \<Rightarrow> real) \<Rightarrow> 'm scene" where
  "loaded rnd =
     (let (sts, k) = new_stars rnd numStars 0
      in \<lparr>MS = [], modelMatrix = None, viewMatrix = None, projectionMatrix = None, eye = None,
          dt = 0.0, prevTime = 0.0, resetTimerFlag = True, animFlag = False,
          stars = sts, nrand = k, calls = [],
          cameraAngle = 0, ballerina = Ballerina_new (0, 0, 0) 1.0\<rparr>)"

definition loaded_ph :: "(nat \<Rightarrow> real) \<Rightarrow> 'm scene_ph" where
  "loaded_ph rnd =
     (let (sts, k) = new_stars rnd numStars 0
      in \<lparr>MS = [], modelMatrix = None, viewMatrix = None, projectionMatrix = None, eye = None,
          dt = 0.0, prevTime = 0.0, resetTimerFlag = True, animFlag = False,
          stars = sts, nrand = k, calls = [],
          ballerina_ph = Ballerina_new_ph (0, 0, 0) 1.0\<rparr>)"

text \<open>
  \<^verbatim>\<open>window.onload\<close>: the set-up of the WebGL context and of the shapes is outside the model;
  what remains is the first colour upload and the first frame, \<^verbatim>\<open>render(0)\<close>.
\<close>

definition materialDiffuse :: vec4 where "materialDiffuse = (1.0, 0.8, 0.0, 1.0)"

definition init :: "'m mvlib \<Rightarrow> (nat \<Rightarrow> real) \<Rightarrow> ('m, 'z) scene_scheme \<Rightarrow> error + ('m, 'z) scene_scheme" where
  "init lib rnd = seq [setColor materialDiffuse, render lib rnd 0]"

definition init_ph :: "'m mvlib \<Rightarrow> (nat \<Rightarrow> real) \<Rightarrow> ('m, 'z) scene_ph_scheme \<Rightarrow> error + ('m, 'z) scene_ph_scheme" where
  "init_ph lib rnd = seq [setColor materialDiffuse, render_ph lib rnd 0]"

section \<open>Concrete states\<close>

text \<open>
  A state as it is inside a frame, right after the matrices have been rebuilt: an empty stack
  and the identity as the current matrix.
\<close>

definition stack_empty :: "mterm globals" where
  "stack_empty =
     \<lparr>MS = [], modelMatrix = Some Mat4, viewMatrix = Some (LookAt (0, 0, 10) (0, 1, 0) (0, 1, 0)),
      projectionMatrix = Some (Ortho (-6) 6 (-6) 6 1 100), eye = Some (0, 0, 10),
      dt = 0, prevTime = 0, resetTimerFlag = True, animFlag = False,
      stars = [], nrand = 0, calls = []\<rparr>"

definition rnd_half :: "nat \<Rightarrow> real" where
  "rnd_half k = 1 / 2"

text \<open>
  A session: the page is loaded, the animation is switched on, one frame is drawn at
  timestamp 1000, and the animation is switched off. The random source returns 1/2 at every call.
\<close>

definition run_then_pause :: "(mterm scene \<Rightarrow> error + mterm scene) list" where
  "run_then_pause =
     [init mv_terms rnd_half,
      stmt animToggle,
      render mv_terms rnd_half 1000,
      stmt animToggle]"

section \<open>Observations\<close>

text \<open>
  The pose of the scene of \<^verbatim>\<open>main.js\<close>: the animation time of the ballerina and the
  positions of the stars.
\<close>

definition pose :: "('m, 'z) scene_scheme \<Rightarrow> real \<times> (real \<times> real) list" where
  "pose s = (b_time (ballerina s), map (\<lambda>st. (star_x st, star_y st)) (stars s))"

text \<open>The timer variables of the frame callback.\<close>

definition timing :: "('m, 'z) globals_scheme \<Rightarrow> bool \<times> bool \<times> real \<times> real" where
  "timing s = (animFlag s, resetTimerFlag s, prevTime s, dt s)"

text \<open>The rotations among the recorded calls, as angle and axis, in order.\<close>

fun rotations :: "'m call list \<Rightarrow> (real \<times> real \<times> real \<times> real) list" where
  "rotations [] = []"
| "rotations (Rotate theta x y z # cs) = (theta, x, y, z) # rotations cs"
| "rotations (c # cs) = rotations cs"

definition applied_rotations ::
  "error + ('m, 'z) globals_scheme \<Rightarrow> error + (real \<times> real \<times> real \<times> real) list" where
  "applied_rotations r = map_sum id (\<lambda>s. rotations (calls s)) r"

section \<open>Auxiliary notions\<close>

text \<open>
  A statement is balanced with \<open>n\<close> pushes when, from any state whose current matrix and
  view matrix are defined, it returns normally, changes nothing but the record of calls, and
  adds \<open>n\<close> pushes and \<open>n\<close> pops to it.
\<close>

definition balanced :: "nat \<Rightarrow> (('m, 'z) globals_scheme \<Rightarrow> error + ('m, 'z) globals_scheme) \<Rightarrow> bool" where
  "balanced n f \<longleftrightarrow>
     (\<forall>s. modelMatrix s \<noteq> None \<and> viewMatrix s \<noteq> None \<longrightarrow>
        (\<exists>s'. f s = Inr s' \<and> s' = s\<lparr>calls := calls s'\<rparr> \<and>
           count_list (calls s') Push = count_list (calls s) Push + n \<and>
           count_list (calls s') Pop = count_list (calls s) Pop + n))"

section \<open>Effect of the drawing functions and of a frame\<close>

lemmas stack_defs = gPush_def gPop_def gTranslate_def gRotate_def gScale_def setColor_def
  setMV_def drawCube_def drawSphere_def drawCone_def drawCylinder_def emit_def Let_def

lemma balancedI:
  assumes "\<And>s m v. modelMatrix s = Some m \<Longrightarrow> viewMatrix s = Some v \<Longrightarrow>
    \<exists>s'. f s = Inr s' \<and> s' = s\<lparr>calls := calls s'\<rparr> \<and>
           count_list (calls s') Push = count_list (calls s) Push + n \<and>
           count_list (calls s') Pop = count_list (calls s) Pop + n"
  shows "balanced n f"
  unfolding balanced_def using assms by auto

lemma Star_draw_balanced: "balanced 1 (Star_draw lib st)"
  by (rule balancedI) (simp add: Star_draw_def stack_defs)

lemma Star_draw_ph_balanced: "balanced 1 (Star_draw_ph lib st)"
  by (rule balancedI) (simp add: Star_draw_ph_def stack_defs)

lemma drawHead_balanced: "balanced 5 (drawHead lib b)"
  by (rule balancedI) (simp add: drawHead_def stack_defs)

lemma drawBody_balanced: "balanced 2 (drawBody lib b)"
  by (rule balancedI) (simp add: drawBody_def stack_defs)

lemma drawArms_balanced: "balanced 2 (drawArms lib b)"
  by (rule balancedI) (simp add: drawArms_def stack_defs Let_def)

lemma drawLegs_balanced: "balanced 6 (drawLegs lib b)"
  by (rule balancedI) (simp add: drawLegs_def stack_defs Let_def)

lemma drawLegs_ph_balanced: "balanced 1 (drawLegs_ph lib b)"
  by (rule balancedI) (simp add: drawLegs_ph_def stack_defs)


lemma seq_append:
  "seq (fs @ gs) s = (case seq fs s of Inl e \<Rightarrow> Inl e | Inr s' \<Rightarrow> seq gs s')"
  by (induction fs arbitrary: s) (auto split: sum.splits)

lemma balancedD:
  assumes "balanced n f" and "modelMatrix s \<noteq> None" and "viewMatrix s \<noteq> None"
  obtains s' where "f s = Inr s'" and "s' = s\<lparr>calls := calls s'\<rparr>"
    and "count_list (calls s') Push = count_list (calls s) Push + n"
    and "count_list (calls s') Pop = count_list (calls s) Pop + n"
  using assms unfolding balanced_def by blast

lemma balanced_Nil: "balanced 0 (seq [])"
  by (rule balancedI) simp

lemma balanced_Cons:
  assumes f: "balanced a f" and fs: "balanced n (seq fs)"
  shows "balanced (a + n) (seq (f # fs))"
proof (rule balancedI)
  fix s :: "('a, 'b) globals_scheme" and m v
  assume s: "modelMatrix s = Some m" "viewMatrix s = Some v"
  from f s obtain s1 where 1: "f s = Inr s1" "s1 = s\<lparr>calls := calls s1\<rparr>"
    "count_list (calls s1) Push = count_list (calls s) Push + a"
    "count_list (calls s1) Pop = count_list (calls s) Pop + a"
    by (auto elim: balancedD)
  have "modelMatrix s1 = modelMatrix s" "viewMatrix s1 = viewMatrix s"
    by (subst 1(2), simp)+
  with s have "modelMatrix s1 \<noteq> None" "viewMatrix s1 \<noteq> None" by simp_all
  with fs obtain s2 where 2: "seq fs s1 = Inr s2" "s2 = s1\<lparr>calls := calls s2\<rparr>"
    "count_list (calls s2) Push = count_list (calls s1) Push + n"
    "count_list (calls s2) Pop = count_list (calls s1) Pop + n"
    by (auto elim: balancedD)
  have "s2 = s\<lparr>calls := calls s2\<rparr>"
    by (subst 2(2), subst 1(2), simp)
  with 1 2 show "\<exists>s'. seq (f # fs) s = Inr s' \<and> s' = s\<lparr>calls := calls s'\<rparr> \<and>
           count_list (calls s') Push = count_list (calls s) Push + (a + n) \<and>
           count_list (calls s') Pop = count_list (calls s) Pop + (a + n)"
    by simp
qed

lemma balanced_map:
  assumes "\<And>x. balanced 1 (f x)"
  shows "balanced (length xs) (seq (map f xs))"
proof (induction xs)
  case Nil
  have "balanced 0 (Inr :: ('b, 'c) globals_scheme \<Rightarrow> error + ('b, 'c) globals_scheme)"
    by (rule balancedI) simp
  then show ?case by simp
next
  case (Cons x xs)
  from balanced_Cons [OF assms [of x] Cons.IH] show ?case by (simp del: seq.simps)
qed

text \<open>A balanced block between a push with leading transforms and the matching pop.\<close>

lemma balanced_wrap:
  assumes body: "balanced n (seq fs)"
    and pre: "\<And>s m. modelMatrix s = Some m \<Longrightarrow>
       \<exists>m'. seq pre s = Inr (s\<lparr>modelMatrix := Some m', calls := calls s @ cs\<rparr>)"
    and cs: "count_list cs Push = 0" "count_list cs Pop = 0"
  shows "balanced (Suc n) (seq (gPush # pre @ fs @ [gPop]))"
proof (rule balancedI)
  fix s :: "('a, 'b) globals_scheme" and m v
  assume s: "modelMatrix s = Some m" "viewMatrix s = Some v"
  define s0 where "s0 = s\<lparr>MS := Some m # MS s, calls := calls s @ [Push]\<rparr>"
  have 0: "gPush s = Inr s0"
    by (simp add: gPush_def emit_def s0_def s)
  have "modelMatrix s0 = Some m" by (simp add: s0_def s)
  from pre [OF this] obtain m' where
    1: "seq pre s0 = Inr (s0\<lparr>modelMatrix := Some m', calls := calls s0 @ cs\<rparr>)" by blast
  define s1 where "s1 = s0\<lparr>modelMatrix := Some m', calls := calls s0 @ cs\<rparr>"
  have "modelMatrix s1 \<noteq> None" "viewMatrix s1 \<noteq> None"
    by (simp_all add: s1_def s0_def s)
  with body obtain s2 where 2: "seq fs s1 = Inr s2" "s2 = s1\<lparr>calls := calls s2\<rparr>"
    "count_list (calls s2) Push = count_list (calls s1) Push + n"
    "count_list (calls s2) Pop = count_list (calls s1) Pop + n"
    by (auto elim: balancedD)
  have ms2: "MS s2 = Some m # MS s"
    by (subst 2(2)) (simp add: s1_def s0_def)
  define s3 where "s3 = s2\<lparr>modelMatrix := Some m, MS := MS s, calls := calls s2 @ [Pop]\<rparr>"
  have 3: "gPop s2 = Inr s3"
    by (simp add: gPop_def emit_def ms2 s3_def)
  have run: "seq (gPush # pre @ fs @ [gPop]) s = Inr s3"
    using 0 1 2(1) 3 by (simp add: seq_append s1_def)
  have eq: "s3 = s\<lparr>calls := calls s3\<rparr>"
    unfolding s3_def by (subst 2(2)) (simp add: s1_def s0_def s [symmetric])
  have cnt: "count_list (calls s3) Push = count_list (calls s) Push + Suc n"
    "count_list (calls s3) Pop = count_list (calls s) Pop + Suc n"
    using 2(3,4) cs by (simp_all add: s3_def s1_def s0_def)
  from run eq cnt
  show "\<exists>s'. seq (gPush # pre @ fs @ [gPop]) s = Inr s' \<and> s' = s\<lparr>calls := calls s'\<rparr> \<and>
           count_list (calls s') Push = count_list (calls s) Push + Suc n \<and>
           count_list (calls s') Pop = count_list (calls s) Pop + Suc n"
    by blast
qed


lemma gTranslate_pre:
  "modelMatrix s = Some m \<Longrightarrow>
     \<exists>m'. seq [gTranslate lib x y z] s = Inr (s\<lparr>modelMatrix := Some m', calls := calls s @ [Translate x y z]\<rparr>)"
  by (auto simp add: gTranslate_def emit_def)

lemma drawStars_run:
  assumes "eye s = Some e" and "modelMatrix s \<noteq> None" and "viewMatrix s \<noteq> None"
  obtains s' where "drawStars lib s = Inr s'" and "s' = s\<lparr>calls := calls s'\<rparr>"
    and "count_list (calls s') Push = count_list (calls s) Push + Suc (length (stars s))"
    and "count_list (calls s') Pop = count_list (calls s) Pop + Suc (length (stars s))"
proof -
  obtain ex ey ez where e: "e = (ex, ey, ez)" by (cases e) auto
  have "balanced (length (stars s)) (seq (map (Star_draw lib) (stars s)))"
    by (rule balanced_map) (rule Star_draw_balanced)
  then have "balanced (Suc (length (stars s)))
      (seq (gPush # [gTranslate lib ex ey ez] @ map (Star_draw lib) (stars s) @ [gPop]))"
    by (rule balanced_wrap [where cs = "[Translate ex ey ez]"]) (use gTranslate_pre in auto)
  moreover have "drawStars lib s =
      seq (gPush # [gTranslate lib ex ey ez] @ map (Star_draw lib) (stars s) @ [gPop]) s"
    using assms(1) by (simp add: drawStars_def e)
  ultimately show thesis
    using assms(2,3) that by (metis balancedD)
qed

lemma drawStars_ph_run:
  assumes "modelMatrix s \<noteq> None" and "viewMatrix s \<noteq> None"
  obtains s' where "drawStars_ph lib s = Inr s'" and "s' = s\<lparr>calls := calls s'\<rparr>"
    and "count_list (calls s') Push = count_list (calls s) Push + length (stars s)"
    and "count_list (calls s') Pop = count_list (calls s) Pop + length (stars s)"
proof -
  have "balanced (length (stars s)) (seq (map (Star_draw_ph lib) (stars s)))"
    by (rule balanced_map) (rule Star_draw_ph_balanced)
  moreover have "drawStars_ph lib s = seq (map (Star_draw_ph lib) (stars s)) s"
    by (simp add: drawStars_ph_def)
  ultimately show thesis
    using assms that by (metis balancedD)
qed

lemma Ballerina_render_balanced: "balanced 16 (Ballerina_render lib b)"
proof -
  obtain px py pz where p: "b_position b = (px, py, pz)" by (cases "b_position b") auto
  have "balanced (5 + (2 + (2 + (6 + 0))))
      (seq [drawHead lib b, drawBody lib b, drawArms lib b, drawLegs lib b])"
    by (intro balanced_Cons balanced_Nil drawHead_balanced drawBody_balanced
        drawArms_balanced drawLegs_balanced)
  then have "balanced 15 (seq [drawHead lib b, drawBody lib b, drawArms lib b, drawLegs lib b])"
    by simp
  then have "balanced (Suc 15)
      (seq (gPush # [gTranslate lib px py pz, gRotate lib (b_rotationAngle b) 0 1 0]
            @ [drawHead lib b, drawBody lib b, drawArms lib b, drawLegs lib b] @ [gPop]))"
    by (rule balanced_wrap [where cs = "[Translate px py pz, Rotate (b_rotationAngle b) 0 1 0]"])
      (auto simp add: gTranslate_def gRotate_def emit_def)
  then show ?thesis
    by (simp add: Ballerina_render_def p del: seq.simps)
qed

lemma Ballerina_render_ph_balanced: "balanced 2 (Ballerina_render_ph lib b)"
proof -
  obtain px py pz where p: "p_position b = (px, py, pz)" by (cases "p_position b") auto
  have "balanced (1 + 0) (seq [drawLegs_ph lib b])"
    by (intro balanced_Cons balanced_Nil drawLegs_ph_balanced)
  then have "balanced 1 (seq [drawLegs_ph lib b])"
    by simp
  then have "balanced (Suc 1)
      (seq (gPush # [gTranslate lib px py pz, gScale lib (p_scale b) (p_scale b) (p_scale b)]
            @ [drawLegs_ph lib b] @ [gPop]))"
    by (rule balanced_wrap [where cs = "[Translate px py pz, Scale (p_scale b) (p_scale b) (p_scale b)]"])
      (auto simp add: gTranslate_def gScale_def emit_def)
  then show ?thesis
    by (simp add: Ballerina_render_ph_def p numeral_2_eq_2 del: seq.simps)
qed

lemma length_update_each: "length (fst (update_each rnd d xs k)) = length xs"
  by (induction xs arbitrary: k) (simp_all add: split_def Let_def)

lemma length_new_stars: "length (fst (new_stars rnd n k)) = n"
  by (induction n arbitrary: k) (simp_all add: split_def Let_def)

lemmas frame_defs = stmt_def emit_def set_viewMatrix_def set_projectionMatrix_def
  setAllMatrices_def setMV_def updateStars_def split_def Let_def length_update_each

lemma render_effect:
  fixes s :: "('a, 'b) scene_scheme" and timestamp :: real
  defines "d \<equiv> (if animFlag s then (timestamp - prevTime s) / 1000.0 else dt s)"
  shows "\<exists>s'. render lib rnd timestamp s = Inr s' \<and> MS s' = [] \<and>
     modelMatrix s' = Some (mv_mat4 lib) \<and>
     count_list (calls s') Push = count_list (calls s) Push + (length (stars s) + 17) \<and>
     count_list (calls s') Pop = count_list (calls s) Pop + (length (stars s) + 17) \<and>
     dt s' = d \<and>
     prevTime s' = (if animFlag s then timestamp else prevTime s) \<and>
     animFlag s' = animFlag s \<and> resetTimerFlag s' = resetTimerFlag s \<and>
     stars s' = fst (update_each rnd d (stars s) (nrand s)) \<and>
     nrand s' = snd (update_each rnd d (stars s) (nrand s)) \<and>
     cameraAngle s' = cameraAngle s + d * 0.5 \<and>
     ballerina s' = Ballerina_update d (ballerina s)"
proof -
  define pre :: "(('a, 'b) scene_scheme \<Rightarrow> error + ('a, 'b) scene_scheme) list" where "pre =
     [stmt (emit Clear),
      stmt (\<lambda>s. s\<lparr>eye := Some (0, 0, 10)\<rparr>),
      stmt (\<lambda>s. s\<lparr>MS := []\<rparr>),
      stmt (\<lambda>s. s\<lparr>modelMatrix := Some (mv_mat4 lib)\<rparr>),
      set_viewMatrix lib at_c,
      stmt (set_projectionMatrix lib),
      setAllMatrices lib,
      stmt (\<lambda>s. if animFlag s
                then (s\<lparr>dt := (timestamp - prevTime s) / 1000.0\<rparr>)\<lparr>prevTime := timestamp\<rparr>
                else s),
      stmt (\<lambda>s. updateStars rnd (dt s) s)]"
  define mid :: "(('a, 'b) scene_scheme \<Rightarrow> error + ('a, 'b) scene_scheme) list" where "mid =
     [stmt (\<lambda>s. updateCamera (dt s) s),
      set_viewMatrix lib at_c,
      stmt (set_projectionMatrix lib),
      setAllMatrices lib,
      stmt (\<lambda>s. s\<lparr>ballerina := Ballerina_update (dt s) (ballerina s)\<rparr>)]"
  define post :: "(('a, 'b) scene_scheme \<Rightarrow> error + ('a, 'b) scene_scheme) list" where "post =
     [stmt (\<lambda>s. if animFlag s then emit RequestAnimFrame s else s)]"
  have r: "render lib rnd timestamp =
      seq (pre @ [drawStars lib] @ mid @ [\<lambda>s. Ballerina_render lib (ballerina s) s] @ post)"
    by (simp add: render_def pre_def mid_def post_def del: seq.simps)
  define s1 where "s1 = projr (seq pre s)"
  have 1: "seq pre s = Inr s1"
    by (simp add: s1_def pre_def frame_defs)
  have a1: "MS s1 = []" "modelMatrix s1 = Some (mv_mat4 lib)" "viewMatrix s1 \<noteq> None"
      "eye s1 = Some (0, 0, 10)"
      "count_list (calls s1) Push = count_list (calls s) Push"
      "count_list (calls s1) Pop = count_list (calls s) Pop"
    by (simp_all add: s1_def pre_def frame_defs)
  have b1: "dt s1 = d" "prevTime s1 = (if animFlag s then timestamp else prevTime s)"
      "animFlag s1 = animFlag s" "resetTimerFlag s1 = resetTimerFlag s"
      "stars s1 = fst (update_each rnd d (stars s) (nrand s))"
      "nrand s1 = snd (update_each rnd d (stars s) (nrand s))"
      "cameraAngle s1 = cameraAngle s" "ballerina s1 = ballerina s"
    by (simp_all add: s1_def pre_def frame_defs d_def)
  from a1(4) obtain s2 where 2: "drawStars lib s1 = Inr s2" "s2 = s1\<lparr>calls := calls s2\<rparr>"
      "count_list (calls s2) Push = count_list (calls s1) Push + Suc (length (stars s1))"
      "count_list (calls s2) Pop = count_list (calls s1) Pop + Suc (length (stars s1))"
    by (rule drawStars_run [where lib = lib]) (simp_all add: a1)
  have a2: "MS s2 = MS s1" "modelMatrix s2 = modelMatrix s1"
    by (subst 2(2), simp)+
  have b2: "dt s2 = dt s1" "prevTime s2 = prevTime s1" "animFlag s2 = animFlag s1"
      "resetTimerFlag s2 = resetTimerFlag s1" "stars s2 = stars s1" "nrand s2 = nrand s1"
      "cameraAngle s2 = cameraAngle s1" "ballerina s2 = ballerina s1"
    by (subst 2(2), simp)+
  define s3 where "s3 = projr (seq mid s2)"
  have m2: "modelMatrix s2 = Some (mv_mat4 lib)" using a2 a1 by simp
  have 3: "seq mid s2 = Inr s3"
    by (simp add: s3_def mid_def frame_defs updateCamera_def m2)
  have a3: "MS s3 = MS s2" "modelMatrix s3 = modelMatrix s2" "viewMatrix s3 \<noteq> None"
      "count_list (calls s3) Push = count_list (calls s2) Push"
      "count_list (calls s3) Pop = count_list (calls s2) Pop"
    by (simp_all add: s3_def mid_def frame_defs updateCamera_def m2)
  have b3: "dt s3 = dt s2" "prevTime s3 = prevTime s2" "animFlag s3 = animFlag s2"
      "resetTimerFlag s3 = resetTimerFlag s2" "stars s3 = stars s2" "nrand s3 = nrand s2"
      "cameraAngle s3 = cameraAngle s2 + dt s2 * 0.5"
      "ballerina s3 = Ballerina_update (dt s2) (ballerina s2)"
    by (simp_all add: s3_def mid_def frame_defs updateCamera_def m2)
  have "modelMatrix s3 \<noteq> None" using a3(2) m2 by simp
  with Ballerina_render_balanced [of lib "ballerina s3"] a3(3)
  obtain s4 where 4: "Ballerina_render lib (ballerina s3) s3 = Inr s4" "s4 = s3\<lparr>calls := calls s4\<rparr>"
      "count_list (calls s4) Push = count_list (calls s3) Push + 16"
      "count_list (calls s4) Pop = count_list (calls s3) Pop + 16"
    by (auto elim: balancedD)
  have a4: "MS s4 = MS s3" "modelMatrix s4 = modelMatrix s3"
    by (subst 4(2), simp)+
  have b4: "dt s4 = dt s3" "prevTime s4 = prevTime s3" "animFlag s4 = animFlag s3"
      "resetTimerFlag s4 = resetTimerFlag s3" "stars s4 = stars s3" "nrand s4 = nrand s3"
      "cameraAngle s4 = cameraAngle s3" "ballerina s4 = ballerina s3"
    by (subst 4(2), simp)+
  define s5 where "s5 = projr (seq post s4)"
  have 5: "seq post s4 = Inr s5"
    by (simp add: s5_def post_def frame_defs)
  have a5: "MS s5 = MS s4" "modelMatrix s5 = modelMatrix s4"
      "count_list (calls s5) Push = count_list (calls s4) Push"
      "count_list (calls s5) Pop = count_list (calls s4) Pop"
    by (simp_all add: s5_def post_def frame_defs)
  have b5: "dt s5 = dt s4" "prevTime s5 = prevTime s4" "animFlag s5 = animFlag s4"
      "resetTimerFlag s5 = resetTimerFlag s4" "stars s5 = stars s4" "nrand s5 = nrand s4"
      "cameraAngle s5 = cameraAngle s4" "ballerina s5 = ballerina s4"
    by (simp_all add: s5_def post_def frame_defs)
  have len: "length (stars s1) = length (stars s)"
    by (simp add: b1 length_update_each)
  have "render lib rnd timestamp s = Inr s5"
    using 1 2(1) 3 4(1) 5 by (simp add: r seq_append)
  moreover have "MS s5 = []" "modelMatrix s5 = Some (mv_mat4 lib)"
    using a5 a4 a3 a2 a1 by simp_all
  moreover have "count_list (calls s5) Push = count_list (calls s) Push + (length (stars s) + 17)"
    using a5(3) 4(3) a3(4) 2(3) a1(5) len by simp
  moreover have "count_list (calls s5) Pop = count_list (calls s) Pop + (length (stars s) + 17)"
    using a5(4) 4(4) a3(5) 2(4) a1(6) len by simp
  moreover have "dt s5 = d" "prevTime s5 = (if animFlag s then timestamp else prevTime s)"
      "animFlag s5 = animFlag s" "resetTimerFlag s5 = resetTimerFlag s"
      "stars s5 = fst (update_each rnd d (stars s) (nrand s))"
      "nrand s5 = snd (update_each rnd d (stars s) (nrand s))"
      "cameraAngle s5 = cameraAngle s + d * 0.5"
      "ballerina s5 = Ballerina_update d (ballerina s)"
    using b5 b4 b3 b2 b1 by simp_all
  ultimately show ?thesis by blast
qed

lemma render_ph_effect:
  fixes s :: "('a, 'b) scene_ph_scheme" and timestamp :: real
  defines "d \<equiv> (if animFlag s then (timestamp - prevTime s) / 1000.0 else dt s)"
  shows "\<exists>s'. render_ph lib rnd timestamp s = Inr s' \<and> MS s' = [] \<and>
     modelMatrix s' = Some (mv_mat4 lib) \<and>
     count_list (calls s') Push = count_list (calls s) Push + (length (stars s) + 2) \<and>
     count_list (calls s') Pop = count_list (calls s) Pop + (length (stars s) + 2) \<and>
     dt s' = d \<and>
     prevTime s' = (if animFlag s then timestamp else prevTime s) \<and>
     animFlag s' = animFlag s \<and> resetTimerFlag s' = resetTimerFlag s \<and>
     stars s' = fst (update_each rnd d (stars s) (nrand s)) \<and>
     nrand s' = snd (update_each rnd d (stars s) (nrand s)) \<and>
     ballerina_ph s' = Ballerina_update_ph d (ballerina_ph s)"
proof -
  define pre :: "(('a, 'b) scene_ph_scheme \<Rightarrow> error + ('a, 'b) scene_ph_scheme) list" where "pre =
     [stmt (emit Clear),
      stmt (\<lambda>s. s\<lparr>eye := Some (0, 0, 10)\<rparr>),
      stmt (\<lambda>s. s\<lparr>MS := []\<rparr>),
      stmt (\<lambda>s. s\<lparr>modelMatrix := Some (mv_mat4 lib)\<rparr>),
      set_viewMatrix lib at_ph,
      stmt (set_projectionMatrix lib),
      setAllMatrices lib,
      stmt (\<lambda>s. if animFlag s
                then (s\<lparr>dt := (timestamp - prevTime s) / 1000.0\<rparr>)\<lparr>prevTime := timestamp\<rparr>
                else s),
      stmt (\<lambda>s. updateStars rnd (dt s) s)]"
  define mid :: "(('a, 'b) scene_ph_scheme \<Rightarrow> error + ('a, 'b) scene_ph_scheme) list" where "mid =
     [stmt (\<lambda>s. s\<lparr>ballerina_ph := Ballerina_update_ph (dt s) (ballerina_ph s)\<rparr>)]"
  define post :: "(('a, 'b) scene_ph_scheme \<Rightarrow> error + ('a, 'b) scene_ph_scheme) list" where "post =
     [stmt (\<lambda>s. if animFlag s then emit RequestAnimFrame s else s)]"
  have r: "render_ph lib rnd timestamp =
      seq (pre @ [drawStars_ph lib] @ mid @ [\<lambda>s. Ballerina_render_ph lib (ballerina_ph s) s] @ post)"
    by (simp add: render_ph_def pre_def mid_def post_def del: seq.simps)
  define s1 where "s1 = projr (seq pre s)"
  have 1: "seq pre s = Inr s1"
    by (simp add: s1_def pre_def frame_defs)
  have a1: "MS s1 = []" "modelMatrix s1 = Some (mv_mat4 lib)" "viewMatrix s1 \<noteq> None"
      "eye s1 = Some (0, 0, 10)"
      "count_list (calls s1) Push = count_list (calls s) Push"
      "count_list (calls s1) Pop = count_list (calls s) Pop"
    by (simp_all add: s1_def pre_def frame_defs)
  have b1: "dt s1 = d" "prevTime s1 = (if animFlag s then timestamp else prevTime s)"
      "animFlag s1 = animFlag s" "resetTimerFlag s1 = resetTimerFlag s"
      "stars s1 = fst (update_each rnd d (stars s) (nrand s))"
      "nrand s1 = snd (update_each rnd d (stars s) (nrand s))"
      "ballerina_ph s1 = ballerina_ph s"
    by (simp_all add: s1_def pre_def frame_defs d_def)
  obtain s2 where 2: "drawStars_ph lib s1 = Inr s2" "s2 = s1\<lparr>calls := calls s2\<rparr>"
      "count_list (calls s2) Push = count_list (calls s1) Push + length (stars s1)"
      "count_list (calls s2) Pop = count_list (calls s1) Pop + length (stars s1)"
    by (rule drawStars_ph_run [where lib = lib and s = s1]) (simp_all add: a1)
  have a2: "MS s2 = MS s1" "modelMatrix s2 = modelMatrix s1" "viewMatrix s2 = viewMatrix s1"
    by (subst 2(2), simp)+
  have b2: "dt s2 = dt s1" "prevTime s2 = prevTime s1" "animFlag s2 = animFlag s1"
      "resetTimerFlag s2 = resetTimerFlag s1" "stars s2 = stars s1" "nrand s2 = nrand s1"
      "ballerina_ph s2 = ballerina_ph s1"
    by (subst 2(2), simp)+
  define s3 where "s3 = projr (seq mid s2)"
  have m2: "modelMatrix s2 = Some (mv_mat4 lib)" using a2 a1 by simp
  have 3: "seq mid s2 = Inr s3"
    by (simp add: s3_def mid_def frame_defs m2)
  have a3: "MS s3 = MS s2" "modelMatrix s3 = modelMatrix s2" "viewMatrix s3 \<noteq> None"
      "count_list (calls s3) Push = count_list (calls s2) Push"
      "count_list (calls s3) Pop = count_list (calls s2) Pop"
    using a1(3) a2(3) by (simp_all add: s3_def mid_def frame_defs m2)
  have b3: "dt s3 = dt s2" "prevTime s3 = prevTime s2" "animFlag s3 = animFlag s2"
      "resetTimerFlag s3 = resetTimerFlag s2" "stars s3 = stars s2" "nrand s3 = nrand s2"
      "ballerina_ph s3 = Ballerina_update_ph (dt s2) (ballerina_ph s2)"
    by (simp_all add: s3_def mid_def frame_defs m2)
  have "modelMatrix s3 \<noteq> None" using a3(2) m2 by simp
  with Ballerina_render_ph_balanced [of lib "ballerina_ph s3"] a3(3)
  obtain s4 where 4: "Ballerina_render_ph lib (ballerina_ph s3) s3 = Inr s4" "s4 = s3\<lparr>calls := calls s4\<rparr>"
      "count_list (calls s4) Push = count_list (calls s3) Push + 2"
      "count_list (calls s4) Pop = count_list (calls s3) Pop + 2"
    by (auto elim: balancedD)
  have a4: "MS s4 = MS s3" "modelMatrix s4 = modelMatrix s3"
    by (subst 4(2), simp)+
  have b4: "dt s4 = dt s3" "prevTime s4 = prevTime s3" "animFlag s4 = animFlag s3"
      "resetTimerFlag s4 = resetTimerFlag s3" "stars s4 = stars s3" "nrand s4 = nrand s3"
      "ballerina_ph s4 = ballerina_ph s3"
    by (subst 4(2), simp)+
  define s5 where "s5 = projr (seq post s4)"
  have 5: "seq post s4 = Inr s5"
    by (simp add: s5_def post_def frame_defs)
  have a5: "MS s5 = MS s4" "modelMatrix s5 = modelMatrix s4"
      "count_list (calls s5) Push = count_list (calls s4) Push"
      "count_list (calls s5) Pop = count_list (calls s4) Pop"
    by (simp_all add: s5_def post_def frame_defs)
  have b5: "dt s5 = dt s4" "prevTime s5 = prevTime s4" "animFlag s5 = animFlag s4"
      "resetTimerFlag s5 = resetTimerFlag s4" "stars s5 = stars s4" "nrand s5 = nrand s4"
      "ballerina_ph s5 = ballerina_ph s4"
    by (simp_all add: s5_def post_def frame_defs)
  have len: "length (stars s1) = length (stars s)"
    by (simp add: b1 length_update_each)
  have "render_ph lib rnd timestamp s = Inr s5"
    using 1 2(1) 3 4(1) 5 by (simp add: r seq_append)
  moreover have "MS s5 = []" "modelMatrix s5 = Some (mv_mat4 lib)"
    using a5 a4 a3 a2 a1 by simp_all
  moreover have "count_list (calls s5) Push = count_list (calls s) Push + (length (stars s) + 2)"
    using a5(3) 4(3) a3(4) 2(3) a1(5) len by simp
  moreover have "count_list (calls s5) Pop = count_list (calls s) Pop + (length (stars s) + 2)"
    using a5(4) 4(4) a3(5) 2(4) a1(6) len by simp
  moreover have "dt s5 = d" "prevTime s5 = (if animFlag s then timestamp else prevTime s)"
      "animFlag s5 = animFlag s" "resetTimerFlag s5 = resetTimerFlag s"
      "stars s5 = fst (update_each rnd d (stars s) (nrand s))"
      "nrand s5 = snd (update_each rnd d (stars s) (nrand s))"
      "ballerina_ph s5 = Ballerina_update_ph d (ballerina_ph s)"
    using b5 b4 b3 b2 b1 by simp_all
  ultimately show ?thesis by blast
qed

lemma update_each_zero:
  assumes "\<forall>st \<in> set xs. star_x st \<le> 10 \<and> star_y st \<le> 10"
  shows "update_each rnd 0 xs k = (xs, k)"
  using assms by (induction xs arbitrary: k) (simp_all add: Star_update_def Let_def)

lemma Ballerina_update_zero: "Ballerina_update 0 b = b"
  by (simp add: Ballerina_update_def Let_def)

lemma Ballerina_update_ph_zero: "p_time b \<le> 2 \<Longrightarrow> Ballerina_update_ph 0 b = b"
  by (simp add: Ballerina_update_ph_def Let_def)

lemma new_stars_bounds:
  assumes "\<forall>i. 0 \<le> rnd i \<and> rnd i < 1"
  shows "\<forall>st \<in> set (fst (new_stars rnd n k)). star_x st \<le> 10 \<and> star_y st \<le> 10"
proof (induction n arbitrary: k)
  case 0
  show ?case by simp
next
  case (Suc n)
  have "rnd k < 1" "rnd (Suc k) < 1" using assms by auto
  then have "star_x (fst (Star_new rnd k)) \<le> 10" "star_y (fst (Star_new rnd k)) \<le> 10"
    by (simp_all add: Star_new_def Star_reset_def)
  with Suc show ?case
    by (simp add: split_def Let_def)
qed

text \<open>
  Every \<^verbatim>\<open>update\<close> leaves a star within \<open>x \<le> 10\<close> and \<open>y \<le> 10\<close>, and the time of the
  ballerina of the phase variant at most 2.
\<close>

lemma Star_update_bounds:
  assumes "rnd (k + 1) < 1"
  shows "star_x (fst (Star_update rnd d (st, k))) \<le> 10 \<and> star_y (fst (Star_update rnd d (st, k))) \<le> 10"
  using assms by (simp add: Star_update_def Let_def)

lemma Ballerina_update_ph_time: "p_time (Ballerina_update_ph d b) \<le> 2"
  by (simp add: Ballerina_update_ph_def Let_def)

lemma rnd_half_range: "\<forall>i. 0 \<le> rnd_half i \<and> rnd_half i < 1"
  by (simp add: rnd_half_def)

lemma loaded_fields:
  "animFlag (loaded rnd) = False" "dt (loaded rnd) = 0" "prevTime (loaded rnd) = 0"
  "stars (loaded rnd) = fst (new_stars rnd numStars 0)"
  "ballerina (loaded rnd) = Ballerina_new (0, 0, 0) 1"
  "cameraAngle (loaded rnd) = 0"
  by (simp_all add: loaded_def split_def Let_def)

lemma loaded_ph_fields:
  "animFlag (loaded_ph rnd) = False" "dt (loaded_ph rnd) = 0" "prevTime (loaded_ph rnd) = 0"
  "stars (loaded_ph rnd) = fst (new_stars rnd numStars 0)"
  "ballerina_ph (loaded_ph rnd) = Ballerina_new_ph (0, 0, 0) 1"
  by (simp_all add: loaded_ph_def split_def Let_def)

lemma new_stars_half:
  "fst (new_stars rnd_half n k) =
     replicate n \<lparr>star_x = 0, star_y = 0, star_velocity = 0.6, star_scale = 0.035\<rparr>"
  by (induction n arbitrary: k)
    (simp_all add: split_def Let_def Star_new_def Star_reset_def rnd_half_def)

lemma update_each_replicate:
  assumes "star_x st + star_velocity st * d \<le> 10" and "star_y st + star_velocity st * d \<le> 10"
  shows "update_each rnd d (replicate n st) k =
     (replicate n (st\<lparr>star_x := star_x st + star_velocity st * d,
                       star_y := star_y st + star_velocity st * d\<rparr>), k)"
  using assms by (induction n arbitrary: k) (simp_all add: Star_update_def Let_def)

lemma run_then_pause_result:
  "\<exists>s. seq run_then_pause (loaded rnd_half) = Inr s \<and>
     timing s = (False, True, 1000, 1) \<and>
     b_time (ballerina s) = 1 \<and>
     stars s = replicate 50 \<lparr>star_x = 0.6, star_y = 0.6, star_velocity = 0.6, star_scale = 0.035\<rparr>"
proof -
  define s0 :: "mterm scene" where "s0 = emit (Color materialDiffuse) (loaded rnd_half)"
  have f0: "animFlag s0 = False" "dt s0 = 0" "prevTime s0 = 0"
    "stars s0 = replicate 50 \<lparr>star_x = 0, star_y = 0, star_velocity = 0.6, star_scale = 0.035\<rparr>"
    "b_time (ballerina s0) = 0"
    by (simp_all add: s0_def emit_def loaded_fields new_stars_half numStars_def Ballerina_new_def)
  from render_effect [of mv_terms rnd_half 0 s0]
  obtain s1 where 1: "render mv_terms rnd_half 0 s0 = Inr s1" "animFlag s1 = False" "dt s1 = 0"
    "prevTime s1 = 0"
    "stars s1 = replicate 50 \<lparr>star_x = 0, star_y = 0, star_velocity = 0.6, star_scale = 0.035\<rparr>"
    "b_time (ballerina s1) = 0"
    by (auto simp add: f0 update_each_replicate Ballerina_update_zero)
  define s2 where "s2 = animToggle s1"
  have f2: "animFlag s2 = True" "resetTimerFlag s2 = True" "dt s2 = 0" "prevTime s2 = 0"
    "stars s2 = stars s1" "ballerina s2 = ballerina s1"
    by (simp_all add: s2_def animToggle_def emit_def 1)
  from render_effect [of mv_terms rnd_half 1000 s2]
  obtain s3 where 3: "render mv_terms rnd_half 1000 s2 = Inr s3" "animFlag s3 = True"
    "resetTimerFlag s3 = True" "dt s3 = 1" "prevTime s3 = 1000"
    "stars s3 = replicate 50 \<lparr>star_x = 0.6, star_y = 0.6, star_velocity = 0.6, star_scale = 0.035\<rparr>"
    "b_time (ballerina s3) = 1"
    by (auto simp add: f2 1 update_each_replicate Ballerina_update_def)
  define s4 where "s4 = animToggle s3"
  have f4: "timing s4 = (False, True, 1000, 1)" "stars s4 = stars s3" "ballerina s4 = ballerina s3"
    by (simp_all add: s4_def animToggle_def timing_def 3)
  have "seq run_then_pause (loaded rnd_half) = Inr s4"
    using 1(1) 3(1)
    by (simp add: run_then_pause_def init_def setColor_def stmt_def s0_def [symmetric]
        s2_def [symmetric] s4_def [symmetric])
  with f4 3 show ?thesis by simp
qed

lemma rotations_append: "rotations (cs @ ds) = rotations cs @ rotations ds"
  by (induction cs rule: rotations.induct) simp_all

section \<open>Matrix stack\<close>

text \<open>
  C2. From any state whose current matrix is a matrix \<open>M\<close>, the block
  \<^verbatim>\<open>gPush(); gTranslate(1,0,0); gRotate(90,0,0,1); gPop()\<close> runs without error and leaves
  the current matrix equal to \<open>M\<close> and the stack as it was. After the two transforms, and
  before the pop, the current matrix is the composed matrix while the entry saved by the push
  is still \<open>M\<close>: the later changes of the current matrix do not reach the saved one.
\<close>

theorem push_transform_pop_restores:
  assumes "modelMatrix s = Some M"
  shows "\<exists>s1 s2.
           seq [gPush, gTranslate lib 1 0 0, gRotate lib 90 0 0 1] s = Inr s1 \<and>
           MS s1 = Some M # MS s \<and>
           modelMatrix s1 =
             Some (mv_mult lib (mv_mult lib M (mv_translate lib (1, 0, 0))) (mv_rotate lib 90 (0, 0, 1))) \<and>
           seq [gPush, gTranslate lib 1 0 0, gRotate lib 90 0 0 1, gPop] s = Inr s2 \<and>
           gPop s1 = Inr s2 \<and>
           modelMatrix s2 = Some M \<and> MS s2 = MS s"
  using assms
  by (simp add: gPush_def gPop_def gTranslate_def gRotate_def emit_def)

theorem push_transform_pop_restores_witness:
  "modelMatrix stack_empty = Some Mat4 \<and>
   (\<exists>s2. seq [gPush, gTranslate mv_terms 1 0 0, gRotate mv_terms 90 0 0 1, gPop] stack_empty = Inr s2 \<and>
      modelMatrix s2 = Some Mat4 \<and> MS s2 = [])"
  using push_transform_pop_restores [of stack_empty Mat4 mv_terms]
  by (auto simp add: stack_empty_def)

text \<open>
  C3, as stated, fails: \<^verbatim>\<open>gPop()\<close> on an empty stack raises nothing. It returns normally
  with the current matrix \<^verbatim>\<open>undefined\<close>.
\<close>

theorem gPop_empty_counterexample:
  "MS stack_empty = [] \<and>
   gPop stack_empty = Inr (stack_empty\<lparr>modelMatrix := None, calls := [Pop]\<rparr>)"
  by (simp add: stack_empty_def gPop_def emit_def)

text \<open>
  C3, amended. \<^verbatim>\<open>gPop()\<close> on an empty stack does not fail: it returns normally, leaves
  the stack empty and sets the current matrix to \<^verbatim>\<open>undefined\<close> (not to the identity). The
  error shows only at the next transform or draw call, which raises a \<^verbatim>\<open>TypeError\<close>.
\<close>

theorem gPop_empty_undefined:
  assumes "MS s = []"
  shows "\<exists>s'. gPop s = Inr s' \<and> modelMatrix s' = None \<and> MS s' = [] \<and>
           gTranslate lib x y z s' = Inl TypeError \<and> gRotate lib a x y z s' = Inl TypeError \<and>
           gScale lib x y z s' = Inl TypeError \<and> setMV lib s' = Inl TypeError"
  using assms
  by (simp add: gPop_def emit_def gTranslate_def gRotate_def gScale_def setMV_def split: option.splits)

theorem gPop_empty_undefined_witness:
  "MS stack_empty = [] \<and>
   (\<exists>s'. gPop stack_empty = Inr s' \<and> modelMatrix s' = None \<and> MS s' = [] \<and>
      gTranslate mv_terms 1 0 0 s' = Inl TypeError)"
  using gPop_empty_undefined [where s = stack_empty and lib = mv_terms and x = 1 and y = 0 and z = 0 and a = 90]
  by (auto simp add: stack_empty_def)

section \<open>Stars\<close>

text \<open>
  C6. Let \<open>(mx, my)\<close> be the position of a star after the motion step of \<^verbatim>\<open>update(dt)\<close>.
  If \<open>mx > 10\<close> or \<open>my > 10\<close>, the star is put on an edge: when the first random draw is
  below 0.5, on the left edge (\<open>x = -6\<close>, and \<open>y = -6 + 12 r\<close> for the next draw \<open>r\<close>, a
  value in \<open>[-6, 6]\<close>); otherwise on the bottom edge (\<open>y = -6\<close>, \<open>x = -6 + 12 r\<close> in
  \<open>[-6, 6]\<close>). A star within the bounds keeps its moved position. The random source returns
  values in \<open>[0, 1)\<close>.
\<close>

theorem Star_update_respawn:
  assumes "0 \<le> rnd (k + 1)" and "rnd (k + 1) < 1"
  shows "let mx = star_x st + star_velocity st * d;
             my = star_y st + star_velocity st * d;
             st' = fst (Star_update rnd d (st, k))
         in ((mx > 10 \<or> my > 10) \<and> rnd k < 0.5 \<longrightarrow>
               star_x st' = -6 \<and> star_y st' = -6 + rnd (k + 1) * 12 \<and>
               -6 \<le> star_y st' \<and> star_y st' \<le> 6) \<and>
            ((mx > 10 \<or> my > 10) \<and> \<not> rnd k < 0.5 \<longrightarrow>
               star_y st' = -6 \<and> star_x st' = -6 + rnd (k + 1) * 12 \<and>
               -6 \<le> star_x st' \<and> star_x st' \<le> 6) \<and>
            (\<not> (mx > 10 \<or> my > 10) \<longrightarrow> star_x st' = mx \<and> star_y st' = my)"
  using assms by (simp add: Star_update_def Let_def)

theorem Star_update_respawn_witness:
  "fst (Star_update (\<lambda>_. 1 / 4) 0
         (\<lparr>star_x = 10.1, star_y = 0, star_velocity = 0.6, star_scale = 0.03\<rparr>, 0))
     = \<lparr>star_x = -6, star_y = -3, star_velocity = 0.6, star_scale = 0.03\<rparr> \<and>
   fst (Star_update (\<lambda>_. 3 / 4) 0
         (\<lparr>star_x = 10.1, star_y = 0, star_velocity = 0.6, star_scale = 0.03\<rparr>, 0))
     = \<lparr>star_x = 3, star_y = -6, star_velocity = 0.6, star_scale = 0.03\<rparr> \<and>
   fst (Star_update (\<lambda>_. 1 / 4) 1
         (\<lparr>star_x = 1, star_y = 2, star_velocity = 0.5, star_scale = 0.03\<rparr>, 0))
     = \<lparr>star_x = 1.5, star_y = 2.5, star_velocity = 0.5, star_scale = 0.03\<rparr>"
  using Star_update_respawn [of "\<lambda>_. 1 / 4" 0
          "\<lparr>star_x = 10.1, star_y = 0, star_velocity = 0.6, star_scale = 0.03\<rparr>" 0]
        Star_update_respawn [of "\<lambda>_. 3 / 4" 0
          "\<lparr>star_x = 10.1, star_y = 0, star_velocity = 0.6, star_scale = 0.03\<rparr>" 0]
        Star_update_respawn [of "\<lambda>_. 1 / 4" 0
          "\<lparr>star_x = 1, star_y = 2, star_velocity = 0.5, star_scale = 0.03\<rparr>" 1]
  by (simp add: Star_update_def Let_def)

text \<open>
  C7. Whatever the random source returns within \<open>[0, 1)\<close>, \<^verbatim>\<open>reset()\<close> leaves \<open>x\<close> and
  \<open>y\<close> in \<open>[-6, 6]\<close>, the velocity in \<open>[0.5, 0.7]\<close> and the scale in \<open>[0.02, 0.05]\<close>.
\<close>

theorem Star_reset_ranges:
  assumes "\<forall>i. 0 \<le> rnd i \<and> rnd i < 1"
  shows "-6 \<le> star_x (fst (Star_reset rnd (st, k))) \<and> star_x (fst (Star_reset rnd (st, k))) \<le> 6 \<and>
         -6 \<le> star_y (fst (Star_reset rnd (st, k))) \<and> star_y (fst (Star_reset rnd (st, k))) \<le> 6 \<and>
         0.5 \<le> star_velocity (fst (Star_reset rnd (st, k))) \<and>
         star_velocity (fst (Star_reset rnd (st, k))) \<le> 0.7 \<and>
         0.02 \<le> star_scale (fst (Star_reset rnd (st, k))) \<and>
         star_scale (fst (Star_reset rnd (st, k))) \<le> 0.05"
proof -
  have "0 \<le> rnd k" "rnd k < 1" "0 \<le> rnd (k + 1)" "rnd (k + 1) < 1"
    "0 \<le> rnd (k + 2)" "rnd (k + 2) < 1" "0 \<le> rnd (k + 3)" "rnd (k + 3) < 1"
    using assms by auto
  then show ?thesis
    by (simp add: Star_reset_def)
qed

theorem Star_reset_ranges_witness:
  "(\<forall>i. 0 \<le> (\<lambda>_. 1 / 2 :: real) i \<and> (\<lambda>_. 1 / 2 :: real) i < 1) \<and>
   fst (Star_reset (\<lambda>_. 1 / 2)
          (\<lparr>star_x = 9, star_y = 9, star_velocity = 9, star_scale = 9\<rparr>, 0))
     = \<lparr>star_x = 0, star_y = 0, star_velocity = 0.6, star_scale = 0.035\<rparr> \<and>
   -6 \<le> star_x (fst (Star_reset (\<lambda>_. 1 / 2)
          (\<lparr>star_x = 9, star_y = 9, star_velocity = 9, star_scale = 9\<rparr>, 0)))"
  using Star_reset_ranges [of "\<lambda>_. 1 / 2"
          "\<lparr>star_x = 9, star_y = 9, star_velocity = 9, star_scale = 9\<rparr>" 0]
  by (simp add: Star_reset_def)

text \<open>
  C8. \<^verbatim>\<open>update(dt)\<close> leaves the velocity and the scale of the star as they were, on every
  path, the respawn at an edge included.
\<close>

theorem Star_update_keeps_velocity_scale:
  "star_velocity (fst (Star_update rnd d (st, k))) = star_velocity st \<and>
   star_scale (fst (Star_update rnd d (st, k))) = star_scale st"
  by (simp add: Star_update_def Let_def)

section \<open>Frame\<close>

text \<open>
  C1. One call of the frame callback, from any state and for any timestamp, returns normally.
  The callback empties the stack at its start, and the stack is empty again at its end. With
  \<open>n\<close> stars it makes \<open>n + 17\<close> calls of \<^verbatim>\<open>gPush\<close> and as many of \<^verbatim>\<open>gPop\<close>
  (one pair around the starfield, one per star, sixteen in the ballerina); the starfield has
  50 stars when the script is loaded, and a frame keeps their number. The same holds for the
  phase variant with \<open>n + 2\<close> pairs.
\<close>

theorem frame_push_pop_balanced:
  fixes s :: "('a, 'b) scene_scheme" and p :: "('c, 'd) scene_ph_scheme"
  shows "(\<exists>s'. render lib rnd timestamp s = Inr s' \<and> MS s' = [] \<and>
            count_list (calls s') Push = count_list (calls s) Push + (length (stars s) + 17) \<and>
            count_list (calls s') Pop = count_list (calls s) Pop + (length (stars s) + 17) \<and>
            length (stars s') = length (stars s)) \<and>
         (\<exists>p'. render_ph lib' rnd' timestamp' p = Inr p' \<and> MS p' = [] \<and>
            count_list (calls p') Push = count_list (calls p) Push + (length (stars p) + 2) \<and>
            count_list (calls p') Pop = count_list (calls p) Pop + (length (stars p) + 2) \<and>
            length (stars p') = length (stars p)) \<and>
         length (stars (loaded rnd0 :: 'e scene)) = 50 \<and>
         length (stars (loaded_ph rnd0 :: 'e scene_ph)) = 50"
proof -
  from render_effect [of lib rnd timestamp s]
  have "\<exists>s'. render lib rnd timestamp s = Inr s' \<and> MS s' = [] \<and>
            count_list (calls s') Push = count_list (calls s) Push + (length (stars s) + 17) \<and>
            count_list (calls s') Pop = count_list (calls s) Pop + (length (stars s) + 17) \<and>
            length (stars s') = length (stars s)"
    by (auto simp add: length_update_each)
  moreover from render_ph_effect [of lib' rnd' timestamp' p]
  have "\<exists>p'. render_ph lib' rnd' timestamp' p = Inr p' \<and> MS p' = [] \<and>
            count_list (calls p') Push = count_list (calls p) Push + (length (stars p) + 2) \<and>
            count_list (calls p') Pop = count_list (calls p) Pop + (length (stars p) + 2) \<and>
            length (stars p') = length (stars p)"
    by (auto simp add: length_update_each)
  moreover have "length (stars (loaded rnd0 :: 'e scene)) = 50"
    "length (stars (loaded_ph rnd0 :: 'e scene_ph)) = 50"
    by (simp_all add: loaded_fields loaded_ph_fields length_new_stars numStars_def)
  ultimately show ?thesis by blast
qed

text \<open>
  C4, as stated, fails: with the animation flag off, \<^verbatim>\<open>dt\<close> is the value left by the last
  animated frame, not zero. In the session above that value is 1; the two frames drawn after
  the animation was switched off move the ballerina's time from 1 to 2 to 3 and every star
  from (0.6, 0.6) to (1.2, 1.2) to (1.8, 1.8).
\<close>

theorem paused_frame_moves_counterexample:
  "map_sum id timing (seq run_then_pause (loaded rnd_half)) = Inr (False, True, 1000, 1) \<and>
   map_sum id pose (seq run_then_pause (loaded rnd_half)) = Inr (1, replicate 50 (0.6, 0.6)) \<and>
   map_sum id pose (seq (run_then_pause @ [render mv_terms rnd_half 1016]) (loaded rnd_half))
     = Inr (2, replicate 50 (1.2, 1.2)) \<and>
   map_sum id pose
     (seq (run_then_pause @ [render mv_terms rnd_half 1016, render mv_terms rnd_half 1033])
        (loaded rnd_half))
     = Inr (3, replicate 50 (1.8, 1.8))"
proof -
  from run_then_pause_result obtain s where
    s: "seq run_then_pause (loaded rnd_half) = Inr s" "timing s = (False, True, 1000, 1)"
    "b_time (ballerina s) = 1"
    "stars s = replicate 50 \<lparr>star_x = 0.6, star_y = 0.6, star_velocity = 0.6, star_scale = 0.035\<rparr>"
    by blast
  have fs: "animFlag s = False" "dt s = 1"
    using s(2) by (simp_all add: timing_def)
  from render_effect [of mv_terms rnd_half 1016 s]
  obtain s1 where 1: "render mv_terms rnd_half 1016 s = Inr s1" "animFlag s1 = False" "dt s1 = 1"
    "stars s1 = replicate 50 \<lparr>star_x = 1.2, star_y = 1.2, star_velocity = 0.6, star_scale = 0.035\<rparr>"
    "b_time (ballerina s1) = 2"
    by (auto simp add: fs s update_each_replicate Ballerina_update_def)
  from render_effect [of mv_terms rnd_half 1033 s1]
  obtain s2 where 2: "render mv_terms rnd_half 1033 s1 = Inr s2"
    "stars s2 = replicate 50 \<lparr>star_x = 1.8, star_y = 1.8, star_velocity = 0.6, star_scale = 0.035\<rparr>"
    "b_time (ballerina s2) = 3"
    by (auto simp add: 1 update_each_replicate Ballerina_update_def)
  show ?thesis
    using s 1 2 by (simp add: seq_append pose_def)
qed

text \<open>
  C4, amended. While the animation flag is off, the frame callback does not compute
  \<^verbatim>\<open>dt\<close>: it leaves \<^verbatim>\<open>dt\<close> and \<^verbatim>\<open>prevTime\<close> as they are, whatever the timestamp, and
  advances the ballerina and the stars by the value that \<^verbatim>\<open>dt\<close> holds. When that value is
  0, as it is until the animation is first switched on, two calls of the callback with any two
  timestamps leave the ballerina (its time, and its phase in the phase variant) and every star
  as they were. For the second part the stars are within the bounds \<open>x \<le> 10\<close>, \<open>y \<le> 10\<close>,
  and the time of the ballerina of the phase variant is at most 2, as \<^verbatim>\<open>reset\<close> and
  \<^verbatim>\<open>update\<close> leave them.
\<close>

theorem paused_frames_keep_pose:
  fixes s :: "('a, 'b) scene_scheme" and p :: "('c, 'd) scene_ph_scheme"
  assumes "\<not> animFlag s" and "\<not> animFlag p"
  shows "(\<exists>s1. render lib rnd t1 s = Inr s1 \<and>
            dt s1 = dt s \<and> prevTime s1 = prevTime s \<and> \<not> animFlag s1 \<and>
            ballerina s1 = Ballerina_update (dt s) (ballerina s) \<and>
            stars s1 = fst (update_each rnd (dt s) (stars s) (nrand s))) \<and>
         (\<exists>p1. render_ph lib' rnd' t1' p = Inr p1 \<and>
            dt p1 = dt p \<and> prevTime p1 = prevTime p \<and> \<not> animFlag p1 \<and>
            ballerina_ph p1 = Ballerina_update_ph (dt p) (ballerina_ph p) \<and>
            stars p1 = fst (update_each rnd' (dt p) (stars p) (nrand p))) \<and>
         (dt s = 0 \<and> (\<forall>st \<in> set (stars s). star_x st \<le> 10 \<and> star_y st \<le> 10) \<longrightarrow>
            (\<exists>s1 s2. render lib rnd t1 s = Inr s1 \<and> render lib rnd t2 s1 = Inr s2 \<and>
               ballerina s1 = ballerina s \<and> stars s1 = stars s \<and>
               ballerina s2 = ballerina s \<and> stars s2 = stars s)) \<and>
         (dt p = 0 \<and> (\<forall>st \<in> set (stars p). star_x st \<le> 10 \<and> star_y st \<le> 10) \<and>
          p_time (ballerina_ph p) \<le> 2 \<longrightarrow>
            (\<exists>p1 p2. render_ph lib' rnd' t1' p = Inr p1 \<and> render_ph lib' rnd' t2' p1 = Inr p2 \<and>
               ballerina_ph p1 = ballerina_ph p \<and> stars p1 = stars p \<and>
               ballerina_ph p2 = ballerina_ph p \<and> stars p2 = stars p))"
proof (intro conjI impI)
  from render_effect [of lib rnd t1 s] assms(1)
  show "\<exists>s1. render lib rnd t1 s = Inr s1 \<and>
            dt s1 = dt s \<and> prevTime s1 = prevTime s \<and> \<not> animFlag s1 \<and>
            ballerina s1 = Ballerina_update (dt s) (ballerina s) \<and>
            stars s1 = fst (update_each rnd (dt s) (stars s) (nrand s))"
    by auto
next
  from render_ph_effect [of lib' rnd' t1' p] assms(2)
  show "\<exists>p1. render_ph lib' rnd' t1' p = Inr p1 \<and>
            dt p1 = dt p \<and> prevTime p1 = prevTime p \<and> \<not> animFlag p1 \<and>
            ballerina_ph p1 = Ballerina_update_ph (dt p) (ballerina_ph p) \<and>
            stars p1 = fst (update_each rnd' (dt p) (stars p) (nrand p))"
    by auto
next
  assume z: "dt s = 0 \<and> (\<forall>st \<in> set (stars s). star_x st \<le> 10 \<and> star_y st \<le> 10)"
  from render_effect [of lib rnd t1 s] assms(1) z
  obtain s1 where 1: "render lib rnd t1 s = Inr s1" "dt s1 = 0" "animFlag s1 = animFlag s"
      "stars s1 = stars s" "ballerina s1 = ballerina s"
    by (auto simp add: update_each_zero Ballerina_update_zero)
  from render_effect [of lib rnd t2 s1] 1 assms(1) z
  obtain s2 where 2: "render lib rnd t2 s1 = Inr s2" "stars s2 = stars s" "ballerina s2 = ballerina s"
    by (auto simp add: update_each_zero Ballerina_update_zero)
  from 1 2 show "\<exists>s1 s2. render lib rnd t1 s = Inr s1 \<and> render lib rnd t2 s1 = Inr s2 \<and>
            ballerina s1 = ballerina s \<and> stars s1 = stars s \<and>
            ballerina s2 = ballerina s \<and> stars s2 = stars s"
    by blast
next
  assume z: "dt p = 0 \<and> (\<forall>st \<in> set (stars p). star_x st \<le> 10 \<and> star_y st \<le> 10) \<and>
          p_time (ballerina_ph p) \<le> 2"
  from render_ph_effect [of lib' rnd' t1' p] assms(2) z
  obtain p1 where 1: "render_ph lib' rnd' t1' p = Inr p1" "dt p1 = 0" "animFlag p1 = animFlag p"
      "stars p1 = stars p" "ballerina_ph p1 = ballerina_ph p"
    by (auto simp add: update_each_zero Ballerina_update_ph_zero)
  from render_ph_effect [of lib' rnd' t2' p1] 1 assms(2) z
  obtain p2 where 2: "render_ph lib' rnd' t2' p1 = Inr p2" "stars p2 = stars p"
      "ballerina_ph p2 = ballerina_ph p"
    by (auto simp add: update_each_zero Ballerina_update_ph_zero)
  from 1 2 show "\<exists>p1 p2. render_ph lib' rnd' t1' p = Inr p1 \<and> render_ph lib' rnd' t2' p1 = Inr p2 \<and>
            ballerina_ph p1 = ballerina_ph p \<and> stars p1 = stars p \<and>
            ballerina_ph p2 = ballerina_ph p \<and> stars p2 = stars p"
    by blast
qed

theorem paused_frames_keep_pose_witness:
  "\<not> animFlag (loaded rnd_half :: mterm scene) \<and>
   \<not> animFlag (loaded_ph rnd_half :: mterm scene_ph) \<and>
   dt (loaded rnd_half :: mterm scene) = 0 \<and>
   list_all (\<lambda>st. star_x st \<le> 10 \<and> star_y st \<le> 10) (stars (loaded rnd_half :: mterm scene)) \<and>
   dt (loaded_ph rnd_half :: mterm scene_ph) = 0 \<and>
   list_all (\<lambda>st. star_x st \<le> 10 \<and> star_y st \<le> 10) (stars (loaded_ph rnd_half :: mterm scene_ph)) \<and>
   p_time (ballerina_ph (loaded_ph rnd_half :: mterm scene_ph)) \<le> 2 \<and>
   (\<exists>s1 s2. render mv_terms rnd_half 0 (loaded rnd_half) = Inr s1 \<and>
      render mv_terms rnd_half 16 s1 = Inr s2 \<and>
      ballerina s2 = Ballerina_new (0, 0, 0) 1 \<and> stars s2 = stars (loaded rnd_half :: mterm scene)) \<and>
   (\<exists>p1 p2. render_ph mv_terms rnd_half 0 (loaded_ph rnd_half) = Inr p1 \<and>
      render_ph mv_terms rnd_half 16 p1 = Inr p2 \<and>
      ballerina_ph p2 = Ballerina_new_ph (0, 0, 0) 1 \<and>
      stars p2 = stars (loaded_ph rnd_half :: mterm scene_ph)) \<and>
   \<not> animFlag (projr (seq run_then_pause (loaded rnd_half))) \<and>
   dt (projr (seq run_then_pause (loaded rnd_half))) = 1 \<and>
   (\<exists>s1. render mv_terms rnd_half 1016 (projr (seq run_then_pause (loaded rnd_half))) = Inr s1 \<and>
      dt s1 = 1 \<and> prevTime s1 = 1000 \<and> b_time (ballerina s1) = 2 \<and>
      stars s1 = replicate 50 \<lparr>star_x = 1.2, star_y = 1.2, star_velocity = 0.6, star_scale = 0.035\<rparr>)"
proof -
  have h: "\<not> animFlag (loaded rnd_half :: mterm scene)"
    "\<not> animFlag (loaded_ph rnd_half :: mterm scene_ph)"
    by (simp_all add: loaded_fields loaded_ph_fields)
  have z: "dt (loaded rnd_half :: mterm scene) = 0"
    "\<forall>st \<in> set (stars (loaded rnd_half :: mterm scene)). star_x st \<le> 10 \<and> star_y st \<le> 10"
    "dt (loaded_ph rnd_half :: mterm scene_ph) = 0"
    "\<forall>st \<in> set (stars (loaded_ph rnd_half :: mterm scene_ph)). star_x st \<le> 10 \<and> star_y st \<le> 10"
    "p_time (ballerina_ph (loaded_ph rnd_half :: mterm scene_ph)) \<le> 2"
    using new_stars_bounds [OF rnd_half_range]
    by (simp_all add: loaded_fields loaded_ph_fields Ballerina_new_ph_def)
  define q where "q = projr (seq run_then_pause (loaded rnd_half))"
  from run_then_pause_result have q: "timing q = (False, True, 1000, 1)"
    "b_time (ballerina q) = 1"
    "stars q = replicate 50 \<lparr>star_x = 0.6, star_y = 0.6, star_velocity = 0.6, star_scale = 0.035\<rparr>"
    by (auto simp add: q_def)
  then have fq: "\<not> animFlag q" "dt q = 1" "prevTime q = 1000"
    by (simp_all add: timing_def)
  have first: "(\<exists>s1 s2. render mv_terms rnd_half 0 (loaded rnd_half) = Inr s1 \<and>
      render mv_terms rnd_half 16 s1 = Inr s2 \<and>
      ballerina s2 = Ballerina_new (0, 0, 0) 1 \<and> stars s2 = stars (loaded rnd_half :: mterm scene)) \<and>
   (\<exists>p1 p2. render_ph mv_terms rnd_half 0 (loaded_ph rnd_half) = Inr p1 \<and>
      render_ph mv_terms rnd_half 16 p1 = Inr p2 \<and>
      ballerina_ph p2 = Ballerina_new_ph (0, 0, 0) 1 \<and>
      stars p2 = stars (loaded_ph rnd_half :: mterm scene_ph))"
    using paused_frames_keep_pose [OF h, of mv_terms rnd_half 0 mv_terms rnd_half 0 16 16] z
    by (simp add: loaded_fields loaded_ph_fields) blast
  have second: "\<exists>s1. render mv_terms rnd_half 1016 q = Inr s1 \<and>
      dt s1 = 1 \<and> prevTime s1 = 1000 \<and> b_time (ballerina s1) = 2 \<and>
      stars s1 = replicate 50 \<lparr>star_x = 1.2, star_y = 1.2, star_velocity = 0.6, star_scale = 0.035\<rparr>"
    using paused_frames_keep_pose [OF fq(1) h(2), of mv_terms rnd_half 1016 mv_terms rnd_half 0 16 16]
    by (auto simp add: fq q update_each_replicate Ballerina_update_def)
  show ?thesis
    using h z first second fq
    by (simp add: list_all_iff q_def [symmetric])
qed

text \<open>
  C5: the code at a resume. In the session above the last animated frame was at timestamp
  1000. The pending frame is drawn with the flag off, the animation is switched on again, and
  the next frame comes at timestamp 61000. The click handler has set \<^verbatim>\<open>resetTimerFlag\<close>, but
  the frame callback does not read it: \<^verbatim>\<open>prevTime\<close> is still 1000, and the first frame after
  the resume gets \<open>dt = 60\<close> seconds, the whole pause.
\<close>

theorem resume_dt_spans_pause:
  "map_sum id timing
     (seq (run_then_pause @ [render mv_terms rnd_half 1016, stmt animToggle]) (loaded rnd_half))
     = Inr (True, True, 1000, 1) \<and>
   map_sum id timing
     (seq (run_then_pause @ [render mv_terms rnd_half 1016, stmt animToggle,
                             render mv_terms rnd_half 61000]) (loaded rnd_half))
     = Inr (True, True, 61000, 60)"
proof -
  from run_then_pause_result obtain s where
    s: "seq run_then_pause (loaded rnd_half) = Inr s" "timing s = (False, True, 1000, 1)"
    by blast
  have fs: "animFlag s = False" "resetTimerFlag s = True" "prevTime s = 1000" "dt s = 1"
    using s(2) by (simp_all add: timing_def)
  from render_effect [of mv_terms rnd_half 1016 s]
  obtain s1 where 1: "render mv_terms rnd_half 1016 s = Inr s1" "animFlag s1 = False"
    "resetTimerFlag s1 = True" "prevTime s1 = 1000" "dt s1 = 1"
    by (auto simp add: fs)
  define s2 where "s2 = animToggle s1"
  have f2: "animFlag s2 = True" "resetTimerFlag s2 = True" "prevTime s2 = 1000" "dt s2 = 1"
    by (simp_all add: s2_def animToggle_def emit_def 1)
  from render_effect [of mv_terms rnd_half 61000 s2]
  obtain s3 where 3: "render mv_terms rnd_half 61000 s2 = Inr s3" "animFlag s3 = True"
    "resetTimerFlag s3 = True" "prevTime s3 = 61000" "dt s3 = 60"
    by (auto simp add: f2)
  show ?thesis
    using s(1) 1(1) 3 f2
    by (simp add: seq_append stmt_def s2_def [symmetric] timing_def)
qed

section \<open>Ballerina\<close>

text \<open>
  C9, as stated, fails for the legs. With the animation time at 0 the rotations of
  \<^verbatim>\<open>drawLegs\<close> are, in order, those listed; the second is the left hip and the sixth the
  right hip. Their angles are -1 and 0, which are not negations of each other.
\<close>

theorem hip_angles_counterexample:
  "applied_rotations (drawLegs mv_terms (Ballerina_new (0, 0, 0) 1) stack_empty)
     = Inr [(0, -10, 0, 1), (-1, -1, 0, 0), (0, -15, 0, 1), (30, 1, 0, 0),
            (-1, -10, 0, 0), (0, 1, 0, 0), (0, 15, 0, 1), (75, 1, 0, 0)] \<and>
   fst (projr (applied_rotations (drawLegs mv_terms (Ballerina_new (0, 0, 0) 1) stack_empty)) ! 1)
     \<noteq> - fst (projr (applied_rotations (drawLegs mv_terms (Ballerina_new (0, 0, 0) 1) stack_empty)) ! 5)"
  by (simp add: applied_rotations_def drawLegs_def stack_defs stack_empty_def Ballerina_new_def)

text \<open>
  C9, amended. At every animation time \<open>t\<close> the left arm is rotated by \<open>12 sin(2t)\<close> degrees
  and the right arm by \<open>-12 sin(2t)\<close> degrees, both about the axis (1, 0, 0). The left hip is
  rotated by \<open>-10 sin(2t) - 1\<close> degrees about the axis (-1, 0, 0), and the right hip by
  \<open>10 sin(2t)\<close> degrees about the axis (1, 0, 0), after a fixed rotation of -1 degree about
  (-10, 0, 0): the two hip angles add up to -1 at every \<open>t\<close>.
\<close>

theorem limb_rotations:
  fixes s :: "('a, 'b) globals_scheme"
  assumes "modelMatrix s = Some m" and "viewMatrix s = Some v"
  shows "(\<exists>s'. drawArms lib b s = Inr s' \<and>
            rotations (calls s') = rotations (calls s) @
              [(-45, 0, 0, 1), (12 * sin (2 * b_time b), 1, 0, 0),
               (45, 0, 0, 1), (- (12 * sin (2 * b_time b)), 1, 0, 0)]) \<and>
         (\<exists>s'. drawLegs lib b s = Inr s' \<and>
            rotations (calls s') = rotations (calls s) @
              [(0, -10, 0, 1), (- (10 * sin (2 * b_time b)) - 1, -1, 0, 0),
               (0, -15, 0, 1), (3 * max 10 (25 * sin (2 * b_time b)), 1, 0, 0),
               (-1, -10, 0, 0), (10 * sin (2 * b_time b), 1, 0, 0),
               (0, 15, 0, 1), (3 * max 10 (25 * cos (2 * b_time b)), 1, 0, 0)])"
proof
  show "\<exists>s'. drawArms lib b s = Inr s' \<and>
            rotations (calls s') = rotations (calls s) @
              [(-45, 0, 0, 1), (12 * sin (2 * b_time b), 1, 0, 0),
               (45, 0, 0, 1), (- (12 * sin (2 * b_time b)), 1, 0, 0)]"
    using assms by (simp add: drawArms_def stack_defs rotations_append mult.commute)
next
  show "\<exists>s'. drawLegs lib b s = Inr s' \<and>
            rotations (calls s') = rotations (calls s) @
              [(0, -10, 0, 1), (- (10 * sin (2 * b_time b)) - 1, -1, 0, 0),
               (0, -15, 0, 1), (3 * max 10 (25 * sin (2 * b_time b)), 1, 0, 0),
               (-1, -10, 0, 0), (10 * sin (2 * b_time b), 1, 0, 0),
               (0, 15, 0, 1), (3 * max 10 (25 * cos (2 * b_time b)), 1, 0, 0)]"
    using assms by (simp add: drawLegs_def stack_defs rotations_append mult.commute)
qed

theorem limb_rotations_witness:
  "modelMatrix stack_empty = Some Mat4 \<and>
   viewMatrix stack_empty = Some (LookAt (0, 0, 10) (0, 1, 0) (0, 1, 0)) \<and>
   (\<exists>s'. drawArms mv_terms (Ballerina_new (0, 0, 0) 1) stack_empty = Inr s' \<and>
      rotations (calls s') = [(-45, 0, 0, 1), (0, 1, 0, 0), (45, 0, 0, 1), (0, 1, 0, 0)]) \<and>
   (\<exists>s'. drawLegs mv_terms (Ballerina_new (0, 0, 0) 1) stack_empty = Inr s' \<and>
      rotations (calls s') =
        [(0, -10, 0, 1), (-1, -1, 0, 0), (0, -15, 0, 1), (30, 1, 0, 0),
         (-1, -10, 0, 0), (0, 1, 0, 0), (0, 15, 0, 1), (75, 1, 0, 0)])"
proof -
  have h: "modelMatrix stack_empty = Some Mat4"
    "viewMatrix stack_empty = Some (LookAt (0, 0, 10) (0, 1, 0) (0, 1, 0))"
    by (simp_all add: stack_empty_def)
  have c: "calls stack_empty = []" "b_time (Ballerina_new (0, 0, 0) 1) = 0"
    by (simp_all add: stack_empty_def Ballerina_new_def)
  from limb_rotations [OF h, of mv_terms "Ballerina_new (0, 0, 0) 1"] h
  show ?thesis
    by (simp add: c)
qed

text \<open>
  C10. In the phase variant, \<^verbatim>\<open>legRotation\<close> is 0 after construction and no update changes
  it, so after any number of updates \<^verbatim>\<open>drawLegs\<close> rotates by 0 degrees, and
  \<^verbatim>\<open>render\<close> does what it does for the new ballerina: what it draws depends on neither the
  time nor the phase.
\<close>

theorem legRotation_stays_zero:
  "p_legRotation (Ballerina_new_ph position scale) = 0 \<and>
   p_legRotation (Ballerina_update_ph d b) = p_legRotation b \<and>
   p_legRotation (foldl (\<lambda>b d. Ballerina_update_ph d b) (Ballerina_new_ph position scale) ds) = 0 \<and>
   drawLegs_ph lib (foldl (\<lambda>b d. Ballerina_update_ph d b) (Ballerina_new_ph position scale) ds)
     = seq [gPush, setColor (1.0, 0.8, 0.8, 1.0), gTranslate lib 0 (-1.2) 0,
            gRotate lib 0 1 0 0, gScale lib 0.2 1.0 0.2, drawCube lib, gPop] \<and>
   Ballerina_render_ph lib (foldl (\<lambda>b d. Ballerina_update_ph d b) (Ballerina_new_ph position scale) ds)
     = Ballerina_render_ph lib (Ballerina_new_ph position scale) \<and>
   Ballerina_render_ph lib (b\<lparr>p_time := t, p_phase := ph\<rparr>) = Ballerina_render_ph lib b"
proof -
  have upd: "p_legRotation (Ballerina_update_ph d b) = p_legRotation b"
    "p_position (Ballerina_update_ph d b) = p_position b"
    "p_scale (Ballerina_update_ph d b) = p_scale b" for d b
    by (simp_all add: Ballerina_update_ph_def Let_def)
  have fold: "p_legRotation (foldl (\<lambda>b d. Ballerina_update_ph d b) b0 ds) = p_legRotation b0 \<and>
     p_position (foldl (\<lambda>b d. Ballerina_update_ph d b) b0 ds) = p_position b0 \<and>
     p_scale (foldl (\<lambda>b d. Ballerina_update_ph d b) b0 ds) = p_scale b0" for b0
    by (induction ds arbitrary: b0) (simp_all add: upd)
  have same: "Ballerina_render_ph lib b1 = Ballerina_render_ph lib b2"
    if "p_legRotation b1 = p_legRotation b2" "p_position b1 = p_position b2" "p_scale b1 = p_scale b2"
    for b1 b2
    using that by (simp add: Ballerina_render_ph_def drawLegs_ph_def del: seq.simps)
  have new: "p_legRotation (Ballerina_new_ph position scale) = 0"
    by (simp add: Ballerina_new_ph_def)
  show ?thesis
    using fold [of "Ballerina_new_ph position scale"] new
    by (auto simp add: upd drawLegs_ph_def intro!: same simp del: seq.simps)
qed

end
